theory Spec2Isabelle
  imports Main
begin

section \<open>The GLSL generator of XShaderCompiler (GLSLGenerator.cpp)\<close>

text \<open>
  The emitter is a visitor over the program tree that writes text into a sink. Each
  member function of \<open>GLSLGenerator\<close> becomes a function from the tree node to a
  transformer of the generator state; a thrown exception is the \<open>Inl\<close> branch of
  the result. The enumerations, keyword tables and the code writer are declared in
  other files of the repository; the tables are fields of the record \<open>tables\<close>,
  enumerations whose members are not visible are numbered by \<open>nat\<close>.
\<close>

subsection \<open>Enumerations and small records\<close>

datatype ShaderTarget =
  VertexShader | TessellationControlShader | TessellationEvaluationShader
  | GeometryShader | FragmentShader | ComputeShader

text \<open>
  Of the enumeration \<open>Intrinsic\<close> the generator names \<open>Undefined\<close>, \<open>Clip\<close>,
  \<open>Mul\<close>, \<open>Rcp\<close> and the range \<open>InterlockedAdd .. InterlockedXor\<close>; the members
  of that range and all remaining intrinsics carry their number.
\<close>

datatype Intrinsic =
  Undefined | Clip | Mul | Rcp | Interlocked nat | OtherIntrinsic nat

type_synonym DataType = nat
type_synonym BufferType = nat
type_synonym StorageClass = nat
type_synonym BinaryOp = nat
type_synonym UnaryOp = nat
type_synonym AssignOp = nat
type_synonym CtrlTransfer = nat

text \<open>\<open>BufferType::Undefined\<close> is the enumerant 0.\<close>

definition BufferType_Undefined :: BufferType where
  "BufferType_Undefined = 0"

text \<open>
  An indexed semantic: the answers of \<open>IsValid\<close>, \<open>IsSystemValue\<close> and \<open>Index\<close>,
  and the number of the semantic, by which the keyword table is consulted.
\<close>

record Semantic =
  semantic_id :: nat
  IsValid :: bool
  IsSystemValue :: bool
  Index :: int

record Register =
  reg_shaderTarget :: "ShaderTarget option"
  registerType :: char
  slot :: int

datatype severity = SeverityWarning | SeverityError

text \<open>A report: its severity and its message (the source position is left out).\<close>

type_synonym Report = "severity \<times> string"

text \<open>
  How a member function can end without returning: a \<open>Report\<close> is thrown, or the
  C++ has no defined behaviour (a null pointer is dereferenced, a vector is read out of
  range).
\<close>

datatype abort = Thrown Report | UndefinedBehaviour

subsection \<open>The generator state and the code writer\<close>

text \<open>
  The mutable members: the text written so far, the indentation level and the options
  stack of the code writer, the two flags of the generator, the reports submitted to the
  log, and the texture records of the statistics output.
\<close>

record gen_state =
  sink :: string
  indent :: nat
  options :: "(bool \<times> bool) list"
  isInsideEntryPoint :: bool
  isInsideInterfaceBlock :: bool
  log :: "Report list"
  textures :: "(string \<times> int) list"

type_synonym gen = "gen_state \<Rightarrow> abort + gen_state"

definition skip :: gen where
  "skip s = Inr s"

text \<open>A sequence of calls: the first that throws ends the sequence.\<close>

fun seq :: "gen list \<Rightarrow> gen" where
  "seq [] s = Inr s"
| "seq (m # ms) s = (case m s of Inl a \<Rightarrow> Inl a | Inr s' \<Rightarrow> seq ms s')"

declare seq.simps [simp del]

definition undefined_behaviour :: gen where
  "undefined_behaviour s = Inl UndefinedBehaviour"

text \<open>
  Modelled from the spec: the code writer behind \<open>Write\<close>, \<open>BeginLn\<close>, \<open>EndLn\<close>,
  \<open>WriteLn\<close>, \<open>Blank\<close>, \<open>IncIndent\<close>, \<open>DecIndent\<close>, \<open>PushOptions\<close> and
  \<open>PopOptions\<close> (class \<open>Generator\<close>) is a sink that receives text, with a current
  indent level of four spaces each, a begin-line/end-line protocol and a small options
  stack; an options frame is the pair (new line enabled, indentation enabled).
\<close>

definition Write :: "string \<Rightarrow> gen" where
  "Write text s = Inr (s\<lparr>sink := sink s @ text\<rparr>)"

definition CurrentOptions :: "gen_state \<Rightarrow> bool \<times> bool" where
  "CurrentOptions s = (case options s of [] \<Rightarrow> (True, True) | opt # _ \<Rightarrow> opt)"

definition FullIndent :: "gen_state \<Rightarrow> string" where
  "FullIndent s = concat (replicate (indent s) ''    '')"

definition BeginLn :: gen where
  "BeginLn s = (if snd (CurrentOptions s) then Write (FullIndent s) s else Inr s)"

definition EndLn :: gen where
  "EndLn s = (if fst (CurrentOptions s) then Write [CHR 0x0A] s else Inr s)"

definition WriteLn :: "string \<Rightarrow> gen" where
  "WriteLn text = seq [BeginLn, Write text, EndLn]"

definition Blank :: gen where
  "Blank = WriteLn []"

definition IncIndent :: gen where
  "IncIndent s = Inr (s\<lparr>indent := Suc (indent s)\<rparr>)"

definition DecIndent :: gen where
  "DecIndent s = Inr (s\<lparr>indent := indent s - 1\<rparr>)"

definition PushOptions :: "bool \<times> bool \<Rightarrow> gen" where
  "PushOptions opt s = Inr (s\<lparr>options := opt # options s\<rparr>)"

definition PopOptions :: gen where
  "PopOptions s = Inr (s\<lparr>options := tl (options s)\<rparr>)"

text \<open>\<open>std::to_string\<close> of an \<open>int\<close>: the decimal digits, with a minus sign.\<close>

fun nat_to_string :: "nat \<Rightarrow> string" where
  "nat_to_string n =
     (if n < 10 then [''0123456789'' ! n]
      else nat_to_string (n div 10) @ [''0123456789'' ! (n mod 10)])"

declare nat_to_string.simps [simp del]

definition to_string :: "int \<Rightarrow> string" where
  "to_string i = (if i < 0 then ''-'' @ nat_to_string (nat (- i)) else nat_to_string (nat i))"

subsection \<open>Expressions, variable identifiers and type denoters\<close>

text \<open>
  \<open>symbolRef\<close> of a \<open>VarIdent\<close> is kept as far as the generator reads it: whether it
  points to a \<open>VarDecl\<close>, and then that declaration's current identifier.
\<close>

datatype symbol_ref = VarDeclRef string | OtherDeclRef

text \<open>
  A \<open>TextureTypeDenoter\<close> holds its texture type and, through
  \<open>textureDeclRef->declStmntRef\<close>, the texture type of the declaring statement.
\<close>

datatype expr =
    ListExpr expr expr
  | LiteralExpr string
  | TypeNameExpr type_denoter
  | TernaryExpr expr expr expr
  | BinaryExpr expr BinaryOp expr
  | UnaryExpr UnaryOp expr
  | PostUnaryExpr expr UnaryOp
  | FunctionCallExpr function_call
  | BracketExpr expr
  | SuffixExpr expr var_ident
  | ArrayAccessExpr expr "expr list"
  | CastExpr expr expr
  | VarAccessExpr var_ident "(AssignOp \<times> expr) option"
  | InitializerExpr "expr list"
and var_ident =
    VarIdent (ident: string) (arrayIndices: "expr list") (next_ident: "var_ident option")
      (symbolRef: "symbol_ref option")
and type_denoter =
    VoidTypeDenoter
  | BaseTypeDenoter DataType
  | TextureTypeDenoter BufferType "BufferType option"
  | StructTypeDenoter string
  | AliasTypeDenoter type_denoter
  | ArrayTypeDenoter type_denoter "expr list"
and function_call =
    FunctionCall (varIdent: "var_ident option") (typeDenoter: "type_denoter option")
      (intrinsic: Intrinsic) (arguments: "expr list")

text \<open>
  \<open>LastVarIdent()\<close> of a \<open>VarIdent\<close> (declared in another file of the repository):
  the last identifier of the chain of \<open>next\<close>.
\<close>

fun LastVarIdent :: "var_ident \<Rightarrow> var_ident" where
  "LastVarIdent (VarIdent name indices (Some nx) sref) = LastVarIdent nx"
| "LastVarIdent v = v"

text \<open>\<open>AST::Types\<close>, as far as the generator compares expression kinds.\<close>

fun is_TernaryExpr :: "expr \<Rightarrow> bool" where
  "is_TernaryExpr (TernaryExpr c t e) = True"
| "is_TernaryExpr x = False"

fun is_BinaryExpr :: "expr \<Rightarrow> bool" where
  "is_BinaryExpr (BinaryExpr l op r) = True"
| "is_BinaryExpr x = False"

fun is_UnaryExpr :: "expr \<Rightarrow> bool" where
  "is_UnaryExpr (UnaryExpr op e) = True"
| "is_UnaryExpr x = False"

fun is_PostUnaryExpr :: "expr \<Rightarrow> bool" where
  "is_PostUnaryExpr (PostUnaryExpr e op) = True"
| "is_PostUnaryExpr x = False"

text \<open>
  Modelled from the spec: the queries of a type denoter (\<open>TypeDenoter.h\<close> is not
  among the sources): \<open>IsVoid\<close>, \<open>IsBase\<close>, \<open>IsStruct\<close>, \<open>IsAlias\<close>,
  \<open>GetAliased\<close>, and \<open>Get\<close>, which follows aliases to the denoted type.
\<close>

fun IsBase :: "type_denoter \<Rightarrow> bool" where
  "IsBase (BaseTypeDenoter d) = True"
| "IsBase t = False"

fun Get :: "type_denoter \<Rightarrow> type_denoter" where
  "Get (AliasTypeDenoter t) = Get t"
| "Get t = t"

subsection \<open>Declarations and statements\<close>

datatype var_decl =
  VarDecl (vd_ident: string) (arrayDims: "expr list") (initializer: "expr option")
    (semantic: Semantic) (disableCodeGen: bool)

text \<open>
  The back-references \<open>nestedStructDeclRefs\<close> and \<open>baseStructRef\<close> of a structure
  hold the structures they point to; the generator only reads them.
\<close>

datatype var_type =
    VarType (structDecl: "struct_decl option") (vt_typeDenoter: type_denoter)
and struct_decl =
    StructDecl (sd_ident: string) (aliasName: string) (isNestedStruct: bool)
      (sd_isShaderInput: bool) (sd_isShaderOutput: bool) (sd_isReachable: bool)
      (members: "var_decl_stmnt list") (nestedStructDeclRefs: "struct_decl list")
      (baseStructRef: "struct_decl option")
and var_decl_stmnt =
    VarDeclStmnt (isShaderInput: bool) (isShaderOutput: bool)
      (storageClasses: "StorageClass list") (typeModifiers: "string list")
      (inputModifier: string) (varType: var_type) (varDecls: "var_decl list")

record TextureDecl =
  td_ident :: string
  td_isReachable :: bool
  td_slotRegisters :: "Register list"

record TextureDeclStmnt_node =
  tds_isReachable :: bool
  textureType :: BufferType
  textureDecls :: "TextureDecl list"

record FunctionDecl_node =
  fd_row :: int
  fd_ident :: string
  fd_isReachable :: bool
  hasNonReturnControlPath :: bool
  isEntryPoint :: bool
  returnType :: var_type
  parameters :: "var_decl_stmnt list"

record BufferDeclStmnt_node =
  bd_row :: int
  bd_ident :: string
  bd_isReachable :: bool
  bd_slotRegisters :: "Register list"
  bd_members :: "var_decl_stmnt list"

text \<open>
  A statement. The code block of a function, of a \<open>CodeBlockStmnt\<close> and of a switch
  case is its statement list; an \<open>ElseStmnt\<close> is its body statement; \<open>StructDeclStmnt\<close>,
  \<open>AliasDeclStmnt\<close>, \<open>FunctionDecl\<close> and \<open>BufferDeclStmnt\<close> carry the row of their
  source position.
\<close>

datatype stmnt =
    NullStmnt
  | CodeBlockStmnt "stmnt list"
  | ForLoopStmnt stmnt "expr option" "expr option" "stmnt option"
  | WhileLoopStmnt expr "stmnt option"
  | DoWhileLoopStmnt "stmnt option" expr
  | IfStmnt expr "stmnt option" "stmnt option"
  | SwitchStmnt expr "switch_case list"
  | ExprStmnt expr
  | ReturnStmnt "expr option" bool
  | CtrlTransferStmnt CtrlTransfer
  | VarDeclStmnt_stmnt var_decl_stmnt
  | StructDeclStmnt int struct_decl
  | AliasDeclStmnt int "struct_decl option"
  | FunctionDecl FunctionDecl_node "stmnt list option"
  | BufferDeclStmnt BufferDeclStmnt_node
  | TextureDeclStmnt TextureDeclStmnt_node
and switch_case =
    SwitchCase "expr option" "stmnt list"

fun is_IfStmnt :: "stmnt \<Rightarrow> bool" where
  "is_IfStmnt (IfStmnt c b e) = True"
| "is_IfStmnt x = False"

fun is_CodeBlockStmnt :: "stmnt \<Rightarrow> bool" where
  "is_CodeBlockStmnt (CodeBlockStmnt sts) = True"
| "is_CodeBlockStmnt x = False"

fun is_ReturnStmnt :: "stmnt \<Rightarrow> bool" where
  "is_ReturnStmnt (ReturnStmnt e f) = True"
| "is_ReturnStmnt x = False"

record Attribute =
  attr_ident :: string
  attr_arguments :: "expr list"

text \<open>
  A reference to a variable declaration of the entry point, with the variable type of
  the statement that declares it (\<open>varDecl->declStmntRef->varType\<close>).
\<close>

record VarDeclRef_node =
  ref_varDecl :: var_decl
  declStmntRef_varType :: var_type

record EntryPoint =
  attribs :: "Attribute list"
  ep_semantic :: Semantic
  inputSemantics_varDeclRefs :: "VarDeclRef_node list"
  inputSemantics_varDeclRefsSV :: "VarDeclRef_node list"
  outputSemantics_varDeclRefs :: "VarDeclRef_node list"
  outputSemantics_varDeclRefsSV :: "VarDeclRef_node list"

record Program =
  globalStmnts :: "stmnt list"
  entryPointRef :: "EntryPoint option"
  usedIntrinsics :: "Intrinsic set"
  hasSM3ScreenSpace :: bool

subsection \<open>Tables and members of the generator\<close>

text \<open>
  The lookup functions of the other source files, which the generator only calls. A
  keyword table answers \<open>None\<close> where the C++ returns a null pointer.
  \<open>GetTypeDenoter\<close> is the type denoter of an expression, \<open>GetExplicitTypeDenoter\<close>
  that of a variable identifier; \<open>InvalidNumArgsMessage\<close> is the message that
  \<open>ErrorInvalidNumArgs\<close> reports; \<open>DetermineRequiredExtensions\<close> is the extension
  agent, \<open>Inl\<close> the message of an exception it throws; \<open>MarkControlPaths\<close>,
  \<open>Convert\<close> and \<open>MarkReferencesFromEntryPoint\<close> are the three passes that
  \<open>GenerateCodePrimary\<close> runs on the program before it emits.

  \<open>localAddress\<close> is the address at which the run places the local flag
  (\<open>semicolon\<close>, \<open>hasElseParentNode\<close>) of the visitor of a statement, whose address that
  visitor passes on as \<open>args\<close>: it is a fact of the run (of the stack at the call), not of
  the program.

  Modelled from the spec: \<open>Error\<close> and \<open>Warning\<close> of class \<open>Generator\<close> submit a
  report. A warning never aborts. An error is reported and emission continues, unless it
  is raised as a structured exception that aborts the generation: \<open>errorAborts\<close> says
  which of the two the reporting of an error does.
\<close>

record tables =
  errorAborts :: bool
  TargetToString :: "ShaderTarget \<Rightarrow> string"
  BufferTypeToGLSLKeyword :: "BufferType \<Rightarrow> string option"
  StorageClassToGLSLKeyword :: "StorageClass \<Rightarrow> string option"
  SemanticToGLSLKeyword :: "Semantic \<Rightarrow> string option"
  DataTypeToGLSLKeyword :: "DataType \<Rightarrow> string option"
  IntrinsicToGLSLKeyword :: "Intrinsic \<Rightarrow> string option"
  DoubleToFloatDataType :: "DataType \<Rightarrow> DataType"
  SubscriptDataType :: "DataType \<Rightarrow> string \<Rightarrow> DataType"
  IsScalarType :: "DataType \<Rightarrow> bool"
  BinaryOpToString :: "BinaryOp \<Rightarrow> string"
  UnaryOpToString :: "UnaryOp \<Rightarrow> string"
  AssignOpToString :: "AssignOp \<Rightarrow> string"
  CtrlTransformToString :: "CtrlTransfer \<Rightarrow> string"
  MustResolveStructForTarget :: "ShaderTarget \<Rightarrow> struct_decl \<Rightarrow> bool"
  GetForTarget :: "Register list \<Rightarrow> ShaderTarget \<Rightarrow> Register option"
  GetTypeDenoter :: "expr \<Rightarrow> type_denoter"
  GetExplicitTypeDenoter :: "var_ident \<Rightarrow> type_denoter"
  VarIdentToString :: "var_ident \<Rightarrow> string"
  InvalidNumArgsMessage :: "string \<Rightarrow> string"
  DetermineRequiredExtensions ::
    "Program \<Rightarrow> int \<Rightarrow> ShaderTarget \<Rightarrow> bool \<Rightarrow> string + string list"
  MarkControlPaths :: "Program \<Rightarrow> Program"
  Convert :: "Program \<Rightarrow> ShaderTarget \<Rightarrow> string \<Rightarrow> Program"
  MarkReferencesFromEntryPoint :: "Program \<Rightarrow> Program"
  localAddress :: "stmnt \<Rightarrow> nat"

text \<open>
  The members that \<open>GenerateCodePrimary\<close> stores before it visits the program, and
  the program itself (\<open>GetProgram\<close>); \<open>stats\<close> says whether a statistics output was
  given.
\<close>

record gen_context = tables +
  shaderTarget :: ShaderTarget
  versionOut :: int
  allowExtensions :: bool
  allowLineMarks :: bool
  nameManglingPrefix :: string
  stats :: bool
  program :: Program

definition Error :: "gen_context \<Rightarrow> string \<Rightarrow> gen" where
  "Error ctx msg s =
     (if errorAborts ctx then Inl (Thrown (SeverityError, msg))
      else Inr (s\<lparr>log := log s @ [(SeverityError, msg)]\<rparr>))"

definition Warning :: "gen_context \<Rightarrow> string \<Rightarrow> gen" where
  "Warning ctx msg s = Inr (s\<lparr>log := log s @ [(SeverityWarning, msg)]\<rparr>)"

definition ErrorInvalidNumArgs :: "gen_context \<Rightarrow> string \<Rightarrow> gen" where
  "ErrorInvalidNumArgs ctx functionName = Error ctx (InvalidNumArgsMessage ctx functionName)"

definition IsScalar :: "gen_context \<Rightarrow> type_denoter \<Rightarrow> bool" where
  "IsScalar ctx t = (case t of BaseTypeDenoter d \<Rightarrow> IsScalarType ctx d | _ \<Rightarrow> False)"

definition GLSL400 :: int where
  "GLSL400 = 400"

subsection \<open>Type denoters, variable identifiers and expressions\<close>

definition WriteDataType :: "gen_context \<Rightarrow> DataType \<Rightarrow> gen" where
  "WriteDataType ctx dataType =
     (let dataType' =
        (if versionOut ctx < GLSL400 then DoubleToFloatDataType ctx dataType else dataType)
      in case DataTypeToGLSLKeyword ctx dataType' of
           Some keyword \<Rightarrow> Write keyword
         | None \<Rightarrow> Error ctx ''failed to map data type to GLSL keyword'')"

definition FinalIdentFromVarIdent :: "var_ident \<Rightarrow> string" where
  "FinalIdentFromVarIdent ast =
     (case symbolRef ast of Some (VarDeclRef varDecl_ident) \<Rightarrow> varDecl_ident | _ \<Rightarrow> ident ast)"

definition GetTypeDenoterForSuffixVarIdent ::
  "gen_context \<Rightarrow> type_denoter \<Rightarrow> var_ident \<Rightarrow> type_denoter" where
  "GetTypeDenoterForSuffixVarIdent ctx lhsTypeDen ast =
     (case lhsTypeDen of
        BaseTypeDenoter dataType \<Rightarrow> BaseTypeDenoter (SubscriptDataType ctx dataType (ident ast))
      | _ \<Rightarrow> Get (GetExplicitTypeDenoter ctx ast))"

fun WriteSuffixVarIdentBegin :: "gen_context \<Rightarrow> type_denoter \<Rightarrow> var_ident \<Rightarrow> gen" where
  "WriteSuffixVarIdentBegin ctx lhsTypeDen (VarIdent name idx nxt sref) =
     seq [case nxt of
            Some n \<Rightarrow>
              WriteSuffixVarIdentBegin ctx
                (GetTypeDenoterForSuffixVarIdent ctx lhsTypeDen (VarIdent name idx nxt sref)) n
          | None \<Rightarrow> skip,
          if IsScalar ctx lhsTypeDen then
            (case lhsTypeDen of
               BaseTypeDenoter dataType \<Rightarrow>
                 seq [WriteDataType ctx (SubscriptDataType ctx dataType name), Write ''('']
             | _ \<Rightarrow> undefined_behaviour)
          else skip]"

definition AssertIntrinsicNumArgs :: "gen_context \<Rightarrow> expr list \<Rightarrow> nat \<Rightarrow> nat \<Rightarrow> gen" where
  "AssertIntrinsicNumArgs ctx args numArgsMin numArgsMax =
     (if length args < numArgsMin \<or> length args > numArgsMax
      then Error ctx ''invalid number of arguments in intrinsic'' else skip)"

fun is_Interlocked :: "Intrinsic \<Rightarrow> bool" where
  "is_Interlocked (Interlocked n) = True"
| "is_Interlocked i = False"

function (sequential) VisitExpr :: "gen_context \<Rightarrow> expr \<Rightarrow> gen"
and WriteArrayDims :: "gen_context \<Rightarrow> expr list \<Rightarrow> gen"
and VisitArguments :: "gen_context \<Rightarrow> expr list \<Rightarrow> gen"
and WriteVarIdent :: "gen_context \<Rightarrow> var_ident \<Rightarrow> bool \<Rightarrow> gen"
and WriteSuffixVarIdentEnd :: "gen_context \<Rightarrow> type_denoter \<Rightarrow> var_ident \<Rightarrow> gen"
and WriteTypeDenoter :: "gen_context \<Rightarrow> type_denoter \<Rightarrow> gen"
and VisitFunctionCall :: "gen_context \<Rightarrow> function_call \<Rightarrow> gen"
and WriteFunctionCallStandard :: "gen_context \<Rightarrow> function_call \<Rightarrow> gen"
and WriteMulArgument :: "gen_context \<Rightarrow> expr \<Rightarrow> gen"
and WriteFunctionCallIntrinsicMul :: "gen_context \<Rightarrow> function_call \<Rightarrow> gen"
and WriteFunctionCallIntrinsicRcp :: "gen_context \<Rightarrow> function_call \<Rightarrow> gen"
and WriteFunctionCallIntrinsicAtomic :: "gen_context \<Rightarrow> function_call \<Rightarrow> gen"
where
  "VisitExpr ctx (ListExpr firstExpr nextExpr) =
     seq [VisitExpr ctx firstExpr, Write '', '', VisitExpr ctx nextExpr]"
| "VisitExpr ctx (LiteralExpr v) = Write v"
| "VisitExpr ctx (TypeNameExpr td) = WriteTypeDenoter ctx td"
| "VisitExpr ctx (TernaryExpr condExpr thenExpr elseExpr) =
     seq [VisitExpr ctx condExpr, Write '' ? '', VisitExpr ctx thenExpr, Write '' : '',
          VisitExpr ctx elseExpr]"
| "VisitExpr ctx (BinaryExpr lhsExpr op rhsExpr) =
     seq [VisitExpr ctx lhsExpr, Write ('' '' @ BinaryOpToString ctx op @ '' ''),
          VisitExpr ctx rhsExpr]"
| "VisitExpr ctx (UnaryExpr op e) = seq [Write (UnaryOpToString ctx op), VisitExpr ctx e]"
| "VisitExpr ctx (PostUnaryExpr e op) = seq [VisitExpr ctx e, Write (UnaryOpToString ctx op)]"
| "VisitExpr ctx (FunctionCallExpr call) = VisitFunctionCall ctx call"
| "VisitExpr ctx (BracketExpr e) = seq [Write ''('', VisitExpr ctx e, Write '')'']"
| "VisitExpr ctx (SuffixExpr e vi) =
     (let typeDenoter = Get (GetTypeDenoter ctx e)
      in seq [WriteSuffixVarIdentBegin ctx typeDenoter vi, VisitExpr ctx e,
              WriteSuffixVarIdentEnd ctx typeDenoter vi])"
| "VisitExpr ctx (ArrayAccessExpr e idx) = seq [VisitExpr ctx e, WriteArrayDims ctx idx]"
| "VisitExpr ctx (CastExpr typeExpr e) =
     seq [VisitExpr ctx typeExpr, Write ''('', VisitExpr ctx e, Write '')'']"
| "VisitExpr ctx (VarAccessExpr vi assign) =
     seq [WriteVarIdent ctx vi True,
          case assign of
            Some (assignOp, assignExpr) \<Rightarrow>
              seq [Write ('' '' @ AssignOpToString ctx assignOp @ '' ''), VisitExpr ctx assignExpr]
          | None \<Rightarrow> skip]"
| "VisitExpr ctx (InitializerExpr exprs) =
     seq [Write ''{ '', VisitArguments ctx exprs, Write '' }'']"
| "WriteArrayDims ctx [] = skip"
| "WriteArrayDims ctx (dim # dims) =
     seq [Write ''['', VisitExpr ctx dim, Write '']'', WriteArrayDims ctx dims]"
| "VisitArguments ctx [] = skip"
| "VisitArguments ctx [e] = VisitExpr ctx e"
| "VisitArguments ctx (e # e' # es) =
     seq [VisitExpr ctx e, Write '', '', VisitArguments ctx (e' # es)]"
| "WriteVarIdent ctx (VarIdent name idx nxt sref) recursive =
     seq [Write (FinalIdentFromVarIdent (VarIdent name idx nxt sref)),
          WriteArrayDims ctx idx,
          if recursive then
            (case nxt of Some n \<Rightarrow> seq [Write ''.'', WriteVarIdent ctx n True] | None \<Rightarrow> skip)
          else skip]"
| "WriteSuffixVarIdentEnd ctx lhsTypeDen (VarIdent name idx nxt sref) =
     seq [if IsScalar ctx lhsTypeDen then Write '')''
          else seq [Write ''.'', WriteVarIdent ctx (VarIdent name idx nxt sref) False],
          case nxt of
            Some n \<Rightarrow>
              WriteSuffixVarIdentEnd ctx
                (GetTypeDenoterForSuffixVarIdent ctx lhsTypeDen (VarIdent name idx nxt sref)) n
          | None \<Rightarrow> skip]"
| "WriteTypeDenoter ctx VoidTypeDenoter = Write ''void''"
| "WriteTypeDenoter ctx (BaseTypeDenoter dataType) = WriteDataType ctx dataType"
| "WriteTypeDenoter ctx (TextureTypeDenoter texType textureDeclRef) =
     (let keywordOf = (\<lambda>textureType.
            case BufferTypeToGLSLKeyword ctx textureType of
              Some keyword \<Rightarrow> Write keyword
            | None \<Rightarrow> Error ctx ''failed to map texture type to GLSL keyword'')
      in if texType = BufferType_Undefined then
           (case textureDeclRef of
              Some declType \<Rightarrow> keywordOf declType
            | None \<Rightarrow>
                seq [Error ctx ''missing reference to texture type denoter'', keywordOf texType])
         else keywordOf texType)"
| "WriteTypeDenoter ctx (StructTypeDenoter name) = Write name"
| "WriteTypeDenoter ctx (AliasTypeDenoter aliased) = WriteTypeDenoter ctx aliased"
| "WriteTypeDenoter ctx (ArrayTypeDenoter baseTypeDenoter dims) =
     seq [WriteTypeDenoter ctx baseTypeDenoter, WriteArrayDims ctx dims]"
| "VisitFunctionCall ctx (FunctionCall vi td intr args) =
     (if intr = Mul then WriteFunctionCallIntrinsicMul ctx (FunctionCall vi td intr args)
      else if intr = Rcp then WriteFunctionCallIntrinsicRcp ctx (FunctionCall vi td intr args)
      else if is_Interlocked intr
        then WriteFunctionCallIntrinsicAtomic ctx (FunctionCall vi td intr args)
      else WriteFunctionCallStandard ctx (FunctionCall vi td intr args))"
| "WriteFunctionCallStandard ctx (FunctionCall vi td intr args) =
     seq [case vi of
            Some v \<Rightarrow>
              (if intr \<noteq> Undefined then
                 (case IntrinsicToGLSLKeyword ctx intr of
                    Some keyword \<Rightarrow> Write keyword
                  | None \<Rightarrow>
                      Error ctx (''failed to map intrinsic '' @ [CHR 0x27]
                        @ VarIdentToString ctx (LastVarIdent v)
                        @ [CHR 0x27] @ '' to GLSL keyword''))
               else WriteVarIdent ctx v True)
          | None \<Rightarrow>
              (case td of
                 Some t \<Rightarrow> WriteTypeDenoter ctx t
               | None \<Rightarrow> Error ctx ''missing function name''),
          Write ''('', VisitArguments ctx args, Write '')'']"
| "WriteMulArgument ctx e =
     (if is_TernaryExpr e \<or> is_BinaryExpr e \<or> is_UnaryExpr e \<or> is_PostUnaryExpr e
      then seq [Write ''('', VisitExpr ctx e, Write '')'']
      else VisitExpr ctx e)"
| "WriteFunctionCallIntrinsicMul ctx (FunctionCall vi td intr args) =
     seq [AssertIntrinsicNumArgs ctx args 2 2,
          Write ''('',
          case args of
            [] \<Rightarrow> undefined_behaviour
          | a # rest \<Rightarrow>
              seq [WriteMulArgument ctx a,
                   Write '' * '',
                   case rest of [] \<Rightarrow> undefined_behaviour | b # _ \<Rightarrow> WriteMulArgument ctx b,
                   Write '')'']]"
| "WriteFunctionCallIntrinsicRcp ctx (FunctionCall vi td intr args) =
     seq [AssertIntrinsicNumArgs ctx args 1 1,
          case args of
            [] \<Rightarrow> undefined_behaviour
          | e # _ \<Rightarrow>
              (let typeDenoter = Get (GetTypeDenoter ctx e)
               in if IsBase typeDenoter then
                    seq [Write ''('', WriteTypeDenoter ctx typeDenoter, Write ''(1) / ('',
                         VisitExpr ctx e, Write ''))'']
                  else Error ctx (''invalid argument type for intrinsic '' @ [CHR 0x27] @ ''rcp''
                         @ [CHR 0x27]))]"
| "WriteFunctionCallIntrinsicAtomic ctx (FunctionCall vi td intr args) =
     seq [AssertIntrinsicNumArgs ctx args 2 3,
          case IntrinsicToGLSLKeyword ctx intr of
            Some keyword \<Rightarrow>
              seq [if length args \<ge> 3 then
                     (case args of
                        a0 # a1 # a2 # _ \<Rightarrow> seq [VisitExpr ctx a2, Write '' = '']
                      | _ \<Rightarrow> undefined_behaviour)
                   else skip,
                   Write (keyword @ ''(''),
                   case args of
                     [] \<Rightarrow> undefined_behaviour
                   | a0 # rest \<Rightarrow>
                       seq [VisitExpr ctx a0,
                            Write '', '',
                            case rest of [] \<Rightarrow> undefined_behaviour | a1 # _ \<Rightarrow> VisitExpr ctx a1,
                            Write '')'']]
          | None \<Rightarrow>
              (case vi of
                 Some v \<Rightarrow>
                   Error ctx (''failed to map intrinsic '' @ [CHR 0x27] @ VarIdentToString ctx v
                     @ [CHR 0x27] @ '' to GLSL keyword'')
               | None \<Rightarrow> undefined_behaviour)]"
  by pat_completeness auto

termination
proof -
  have IsBase_size: "\<And>t. IsBase t \<Longrightarrow> size t = 0"
    by (case_tac t) auto
  show ?thesis
  by (relation "measure (case_sum
      (case_sum
        (case_sum (\<lambda>(ctx, e). 2 * size e)
          (case_sum (\<lambda>(ctx, es). 2 * size_list size es) (\<lambda>(ctx, es). 2 * size_list size es)))
        (case_sum (\<lambda>(ctx, v, r). 2 * size v)
          (case_sum (\<lambda>(ctx, t, v). 2 * size v + 1) (\<lambda>(ctx, t). 2 * size t))))
      (case_sum
        (case_sum (\<lambda>(ctx, c). 2 * size c + 1)
          (case_sum (\<lambda>(ctx, c). 2 * size c) (\<lambda>(ctx, e). 2 * size e + 1)))
        (case_sum (\<lambda>(ctx, c). 2 * size c)
          (case_sum (\<lambda>(ctx, c). 2 * size c) (\<lambda>(ctx, c). 2 * size c)))))")
    (auto simp: IsBase_size)
qed

subsection \<open>Scopes, line marks and register names\<close>

definition Comment :: "string \<Rightarrow> gen" where
  "Comment text = WriteLn (''// '' @ text)"

definition Version :: "int \<Rightarrow> gen" where
  "Version versionNumber = WriteLn (''#version '' @ to_string versionNumber)"

definition Line :: "gen_context \<Rightarrow> int \<Rightarrow> gen" where
  "Line ctx lineNumber =
     (if allowLineMarks ctx then WriteLn (''#line '' @ to_string lineNumber) else skip)"

definition WriteExtension :: "string \<Rightarrow> gen" where
  "WriteExtension extensionName = WriteLn (''#extension '' @ extensionName @ '' : enable'')"

definition OpenScope :: gen where
  "OpenScope = seq [WriteLn ''{'', IncIndent]"

definition CloseScope :: "bool \<Rightarrow> gen" where
  "CloseScope semicolon = seq [DecIndent, WriteLn (if semicolon then ''};'' else ''}'')]"

text \<open>
  \<open>registerName[pos]\<close> of a \<open>const std::string\<close>: the character at the position; at
  the position \<open>size()\<close>, one past the last character, the null character that ends
  the string; beyond that position the behaviour is undefined (\<open>None\<close>).
\<close>

definition string_at :: "string \<Rightarrow> nat \<Rightarrow> char option" where
  "string_at str pos =
     (if pos < length str then Some (str ! pos)
      else if pos = length str then Some (CHR 0x00)
      else None)"

definition ValidateRegisterPrefix :: "gen_context \<Rightarrow> string \<Rightarrow> char \<Rightarrow> gen" where
  "ValidateRegisterPrefix ctx registerName prefix =
     (if registerName = [] \<or> string_at registerName 0 \<noteq> Some prefix then
        (case string_at registerName 0 of
           Some c \<Rightarrow>
             Error ctx (''invalid register prefix '' @ [CHR 0x27] @ [c] @ [CHR 0x27]
               @ '' (expected '' @ [CHR 0x27] @ [prefix] @ [CHR 0x27] @ '')'')
         | None \<Rightarrow> undefined_behaviour)
      else skip)"

definition MustResolveStruct :: "gen_context \<Rightarrow> struct_decl \<Rightarrow> bool" where
  "MustResolveStruct ctx ast = MustResolveStructForTarget ctx (shaderTarget ctx) ast"

definition IsVersionOut :: "gen_context \<Rightarrow> int \<Rightarrow> bool" where
  "IsVersionOut ctx version = (versionOut ctx \<ge> version)"

subsection \<open>Variable and structure declarations\<close>

definition VisitVarDecl :: "gen_context \<Rightarrow> var_decl \<Rightarrow> gen" where
  "VisitVarDecl ctx ast =
     seq [Write (vd_ident ast),
          WriteArrayDims ctx (arrayDims ast),
          case initializer ast of
            Some e \<Rightarrow> seq [Write '' = '', VisitExpr ctx e]
          | None \<Rightarrow> skip]"

fun VisitVarDecls :: "gen_context \<Rightarrow> var_decl list \<Rightarrow> gen" where
  "VisitVarDecls ctx [] = skip"
| "VisitVarDecls ctx [v] = VisitVarDecl ctx v"
| "VisitVarDecls ctx (v # v' # vs) =
     seq [VisitVarDecl ctx v, Write '', '', VisitVarDecls ctx (v' # vs)]"

fun WriteStorageClasses :: "gen_context \<Rightarrow> StorageClass list \<Rightarrow> gen" where
  "WriteStorageClasses ctx [] = skip"
| "WriteStorageClasses ctx (storageClass # rest) =
     seq [case StorageClassToGLSLKeyword ctx storageClass of
            Some keyword \<Rightarrow> Write (keyword @ '' '')
          | None \<Rightarrow>
              Error ctx
                ''not all storage classes or interpolation modifiers can be mapped to GLSL keyword'',
          WriteStorageClasses ctx rest]"

fun WriteTypeModifiers :: "string list \<Rightarrow> gen" where
  "WriteTypeModifiers [] = skip"
| "WriteTypeModifiers (modifier # rest) =
     seq [if modifier = ''const'' then Write (modifier @ '' '') else skip,
          WriteTypeModifiers rest]"

definition set_isInsideInterfaceBlock :: "bool \<Rightarrow> gen" where
  "set_isInsideInterfaceBlock b s = Inr (s\<lparr>isInsideInterfaceBlock := b\<rparr>)"

definition set_isInsideEntryPoint :: "bool \<Rightarrow> gen" where
  "set_isInsideEntryPoint b s = Inr (s\<lparr>isInsideEntryPoint := b\<rparr>)"

text \<open>
  The visitor's extra argument \<open>args\<close> is a pointer: \<open>None\<close> is the null pointer,
  \<open>Some p\<close> the address \<open>p\<close> of a local flag of the caller. \<open>VisitStructDecl\<close> and
  \<open>VisitIfStmnt\<close> do not read the flag at that address: with
  \<open>*reinterpret_cast<bool*>(&args)\<close> they read, as a \<open>bool\<close>, the first byte of the
  pointer itself, which on a little-endian target is the low byte of the address. The
  bytes 0 and 1 are the values \<open>false\<close> and \<open>true\<close>; any other byte is no value of
  \<open>bool\<close>, and the behaviour is undefined (\<open>args_undefined\<close>).

  \<open>WriteVarIdent\<close> has \<open>recursive = true\<close> and \<open>WriteStructDecl\<close> has
  \<open>allowNestedStruct = false\<close> where the call leaves the argument out.
  \<open>WriteNestedStructDecls\<close> is the loop of \<open>VisitStructDecl\<close> over
  \<open>nestedStructDeclRefs\<close> from its last element to its first.
\<close>

definition args_flag :: "nat option \<Rightarrow> bool" where
  "args_flag args = (case args of Some p \<Rightarrow> p mod 256 = 1 | None \<Rightarrow> False)"

definition args_undefined :: "nat option \<Rightarrow> bool" where
  "args_undefined args = (case args of Some p \<Rightarrow> 1 < p mod 256 | None \<Rightarrow> False)"

function (sequential) VisitVarType :: "gen_context \<Rightarrow> var_type \<Rightarrow> gen"
and VisitStructDecl :: "gen_context \<Rightarrow> struct_decl \<Rightarrow> nat option \<Rightarrow> gen"
and WriteNestedStructDecls :: "gen_context \<Rightarrow> struct_decl list \<Rightarrow> gen"
and WriteStructDecl :: "gen_context \<Rightarrow> struct_decl \<Rightarrow> bool \<Rightarrow> bool \<Rightarrow> gen"
and WriteStructDeclMembers :: "gen_context \<Rightarrow> struct_decl \<Rightarrow> gen"
and VisitVarDeclStmnt :: "gen_context \<Rightarrow> var_decl_stmnt \<Rightarrow> gen"
and VisitVarDeclStmnts :: "gen_context \<Rightarrow> var_decl_stmnt list \<Rightarrow> gen"
where
  "VisitVarType ctx (VarType sd td) =
     (case sd of
        Some sdecl \<Rightarrow> VisitStructDecl ctx sdecl None
      | None \<Rightarrow> WriteTypeDenoter ctx td)"
| "VisitStructDecl ctx (StructDecl name alias nested inp outp reach mems nestedRefs base) args =
     (if \<not> MustResolveStruct ctx (StructDecl name alias nested inp outp reach mems nestedRefs base)
      then
        seq [if args_undefined args then undefined_behaviour else skip,
             if \<not> nested then WriteNestedStructDecls ctx nestedRefs else skip,
             WriteStructDecl ctx
               (StructDecl name alias nested inp outp reach mems nestedRefs base)
               (args_flag args) False]
      else skip)"
| "WriteNestedStructDecls ctx [] = skip"
| "WriteNestedStructDecls ctx (nestedStruct # rest) =
     seq [WriteNestedStructDecls ctx rest,
          WriteStructDecl ctx nestedStruct True True,
          Blank]"
| "WriteStructDecl ctx (StructDecl name alias nested inp outp reach mems nestedRefs base)
     writeSemicolon allowNestedStruct =
     (if \<not> nested \<or> allowNestedStruct then
        (if inp \<or> outp then
           seq [BeginLn,
                if inp then Write ''in '' else Write ''out '',
                Write name,
                EndLn,
                OpenScope,
                set_isInsideInterfaceBlock True,
                VisitVarDeclStmnts ctx mems,
                set_isInsideInterfaceBlock False,
                CloseScope False,
                WriteLn (alias @ '';'')]
         else
           seq [BeginLn,
                Write ''struct'',
                if name \<noteq> [] then Write (CHR '' '' # name) else skip,
                EndLn,
                OpenScope,
                WriteStructDeclMembers ctx
                  (StructDecl name alias nested inp outp reach mems nestedRefs base),
                CloseScope writeSemicolon])
      else if \<not> writeSemicolon then seq [BeginLn, Write (name @ '' '')]
      else skip)"
| "WriteStructDeclMembers ctx (StructDecl name alias nested inp outp reach mems nestedRefs base) =
     seq [case base of
            Some baseStruct \<Rightarrow> WriteStructDeclMembers ctx baseStruct
          | None \<Rightarrow> skip,
          VisitVarDeclStmnts ctx mems]"
| "VisitVarDeclStmnt ctx (VarDeclStmnt inp outp classes modifiers inputMod vt decls) =
     (\<lambda>s.
        (let varDecls =
           filter (\<lambda>v. \<not> (disableCodeGen v \<or>
                           (isInsideInterfaceBlock s \<and> IsSystemValue (semantic v)))) decls
         in if varDecls = [] then skip
            else
              seq [BeginLn,
                   if inp then Write ''in '' else if outp then Write ''out '' else skip,
                   WriteStorageClasses ctx classes,
                   WriteTypeModifiers modifiers,
                   if structDecl vt \<noteq> None then seq [VisitVarType ctx vt, BeginLn]
                   else seq [VisitVarType ctx vt, Write '' ''],
                   VisitVarDecls ctx varDecls,
                   Write '';'',
                   EndLn]) s)"
| "VisitVarDeclStmnts ctx [] = skip"
| "VisitVarDeclStmnts ctx (m # ms) = seq [VisitVarDeclStmnt ctx m, VisitVarDeclStmnts ctx ms]"
  by pat_completeness auto

termination
  by (relation "measure (case_sum
      (case_sum (\<lambda>(ctx, vt). 3 * size vt)
        (case_sum (\<lambda>(ctx, sd, args). 3 * size sd + 2) (\<lambda>(ctx, sds). 3 * size_list size sds)))
      (case_sum
        (case_sum (\<lambda>(ctx, sd, b, c). 3 * size sd + 1) (\<lambda>(ctx, sd). 3 * size sd))
        (case_sum (\<lambda>(ctx, st). 3 * size st) (\<lambda>(ctx, sts). 3 * size_list size sts))))")
    auto

subsection \<open>Entry-point semantics\<close>

text \<open>
  \<open>GetProgram()->entryPointRef\<close> is dereferenced without a check. The functions
  \<open>Write...SemanticsVarDecl\<close> return a flag that depends on the declaration only; it is
  the separate function \<open>..._written\<close>, which is constantly true for three of them.
\<close>

definition with_entryPoint :: "gen_context \<Rightarrow> (EntryPoint \<Rightarrow> gen) \<Rightarrow> gen" where
  "with_entryPoint ctx f =
     (case entryPointRef (program ctx) of None \<Rightarrow> undefined_behaviour | Some ep \<Rightarrow> f ep)"

definition WriteLocalInputSemanticsVarDecl :: "gen_context \<Rightarrow> VarDeclRef_node \<Rightarrow> gen" where
  "WriteLocalInputSemanticsVarDecl ctx varDecl =
     (if IsValid (semantic (ref_varDecl varDecl)) then
        (case SemanticToGLSLKeyword ctx (semantic (ref_varDecl varDecl)) of
           Some semanticKeyword \<Rightarrow>
             seq [BeginLn,
                  VisitVarType ctx (declStmntRef_varType varDecl),
                  Write ('' '' @ vd_ident (ref_varDecl varDecl) @ '' = '' @ semanticKeyword @ '';''),
                  EndLn]
         | None \<Rightarrow> Error ctx ''failed to map semantic name to GLSL keyword'')
      else skip)"

definition WriteLocalInputSemanticsVarDecl_written :: "VarDeclRef_node \<Rightarrow> bool" where
  "WriteLocalInputSemanticsVarDecl_written varDecl = IsValid (semantic (ref_varDecl varDecl))"

definition WriteLocalInputSemantics :: "gen_context \<Rightarrow> gen" where
  "WriteLocalInputSemantics ctx =
     with_entryPoint ctx (\<lambda>ep.
       seq [seq (map (WriteLocalInputSemanticsVarDecl ctx) (inputSemantics_varDeclRefsSV ep)),
            if list_ex WriteLocalInputSemanticsVarDecl_written (inputSemantics_varDeclRefsSV ep)
            then Blank else skip])"

definition WriteGlobalInputSemanticsVarDecl :: "gen_context \<Rightarrow> VarDeclRef_node \<Rightarrow> gen" where
  "WriteGlobalInputSemanticsVarDecl ctx varDecl =
     seq [BeginLn,
          Write ''in '',
          VisitVarType ctx (declStmntRef_varType varDecl),
          Write ('' '' @ vd_ident (ref_varDecl varDecl) @ '';''),
          EndLn]"

definition WriteGlobalInputSemantics :: "gen_context \<Rightarrow> gen" where
  "WriteGlobalInputSemantics ctx =
     with_entryPoint ctx (\<lambda>ep.
       seq [seq (map (WriteGlobalInputSemanticsVarDecl ctx) (inputSemantics_varDeclRefs ep)),
            if inputSemantics_varDeclRefs ep \<noteq> [] then Blank else skip])"

definition WriteLocalOutputSemanticsVarDecl :: "gen_context \<Rightarrow> VarDeclRef_node \<Rightarrow> gen" where
  "WriteLocalOutputSemanticsVarDecl ctx varDecl =
     seq [BeginLn,
          VisitVarType ctx (declStmntRef_varType varDecl),
          Write ('' '' @ vd_ident (ref_varDecl varDecl) @ '';''),
          EndLn]"

definition WriteLocalOutputSemantics :: "gen_context \<Rightarrow> gen" where
  "WriteLocalOutputSemantics ctx =
     with_entryPoint ctx (\<lambda>ep.
       seq [seq (map (WriteLocalOutputSemanticsVarDecl ctx) (outputSemantics_varDeclRefsSV ep)),
            if outputSemantics_varDeclRefsSV ep \<noteq> [] then Blank else skip])"

definition WriteGlobalOutputSemanticsVarDecl :: "gen_context \<Rightarrow> VarDeclRef_node \<Rightarrow> gen" where
  "WriteGlobalOutputSemanticsVarDecl ctx varDecl =
     seq [BeginLn,
          if IsValid (semantic (ref_varDecl varDecl)) then
            Write (''layout(location = '' @ to_string (Index (semantic (ref_varDecl varDecl)))
              @ '') out '')
          else Write ''out '',
          VisitVarType ctx (declStmntRef_varType varDecl),
          Write ('' '' @ vd_ident (ref_varDecl varDecl) @ '';''),
          EndLn]"

definition WriteGlobalOutputSemantics :: "gen_context \<Rightarrow> gen" where
  "WriteGlobalOutputSemantics ctx =
     with_entryPoint ctx (\<lambda>ep.
       seq [seq (map (WriteGlobalOutputSemanticsVarDecl ctx) (outputSemantics_varDeclRefs ep)),
            if outputSemantics_varDeclRefs ep \<noteq> [] then Blank else skip])"

definition WriteOutputSemanticsAssignmentVarDecl :: "gen_context \<Rightarrow> VarDeclRef_node \<Rightarrow> gen" where
  "WriteOutputSemanticsAssignmentVarDecl ctx varDecl =
     (if IsValid (semantic (ref_varDecl varDecl)) then
        (case SemanticToGLSLKeyword ctx (semantic (ref_varDecl varDecl)) of
           Some semanticKeyword \<Rightarrow>
             seq [BeginLn,
                  Write (semanticKeyword @ '' = '' @ vd_ident (ref_varDecl varDecl) @ '';''),
                  EndLn]
         | None \<Rightarrow> skip)
      else skip)"

definition WriteOutputSemanticsAssignment :: "gen_context \<Rightarrow> expr option \<Rightarrow> gen" where
  "WriteOutputSemanticsAssignment ctx ast =
     with_entryPoint ctx (\<lambda>entryPoint.
       if outputSemantics_varDeclRefsSV entryPoint \<noteq> [] then
         seq (map (WriteOutputSemanticsAssignmentVarDecl ctx)
                (outputSemantics_varDeclRefsSV entryPoint))
       else if IsSystemValue (ep_semantic entryPoint) \<and> ast \<noteq> None then
         (case SemanticToGLSLKeyword ctx (ep_semantic entryPoint) of
            Some semanticKeyword \<Rightarrow>
              seq [BeginLn,
                   Write semanticKeyword,
                   Write '' = '',
                   case ast of Some e \<Rightarrow> VisitExpr ctx e | None \<Rightarrow> skip,
                   Write '';'',
                   EndLn]
          | None \<Rightarrow> Error ctx ''failed to map output semantic to GLSL keyword'')
       else if shaderTarget ctx \<noteq> ComputeShader then Error ctx ''missing output semantic''
       else skip)"

subsection \<open>Attributes, parameters and statements\<close>

definition WriteAttributeNumThreads :: "gen_context \<Rightarrow> Attribute \<Rightarrow> gen" where
  "WriteAttributeNumThreads ctx ast =
     (if length (attr_arguments ast) = 3 then
        seq [BeginLn,
             Write ''layout(local_size_x = '', VisitExpr ctx (attr_arguments ast ! 0),
             Write '', local_size_y = '', VisitExpr ctx (attr_arguments ast ! 1),
             Write '', local_size_z = '', VisitExpr ctx (attr_arguments ast ! 2),
             Write '') in;'',
             EndLn]
      else ErrorInvalidNumArgs ctx ([CHR 0x22] @ ''numthreads'' @ [CHR 0x22] @ '' attribute''))"

definition WriteAttributeEarlyDepthStencil :: gen where
  "WriteAttributeEarlyDepthStencil = WriteLn ''layout(early_fragment_tests) in;''"

definition WriteAttribute :: "gen_context \<Rightarrow> Attribute \<Rightarrow> gen" where
  "WriteAttribute ctx ast =
     (if attr_ident ast = ''numthreads'' then WriteAttributeNumThreads ctx ast
      else if attr_ident ast = ''earlydepthstencil'' then WriteAttributeEarlyDepthStencil
      else skip)"

definition WriteParameter :: "gen_context \<Rightarrow> var_decl_stmnt \<Rightarrow> gen" where
  "WriteParameter ctx ast =
     seq [if inputModifier ast \<noteq> [] then Write (inputModifier ast @ '' '') else skip,
          WriteTypeModifiers (typeModifiers ast),
          VisitVarType ctx (varType ast),
          Write '' '',
          case varDecls ast of
            [v] \<Rightarrow> VisitVarDecl ctx v
          | _ \<Rightarrow> Error ctx ''invalid number of variables in function parameter'']"

fun WriteParameters :: "gen_context \<Rightarrow> var_decl_stmnt list \<Rightarrow> gen" where
  "WriteParameters ctx [] = skip"
| "WriteParameters ctx [p] = WriteParameter ctx p"
| "WriteParameters ctx (p # p' # ps) =
     seq [WriteParameter ctx p, Write '', '', WriteParameters ctx (p' # ps)]"

definition VisitBufferDeclStmnt :: "gen_context \<Rightarrow> BufferDeclStmnt_node \<Rightarrow> gen" where
  "VisitBufferDeclStmnt ctx ast =
     (if \<not> bd_isReachable ast then skip
      else
        seq [Line ctx (bd_row ast),
             BeginLn,
             Write ''layout(std140'',
             case GetForTarget ctx (bd_slotRegisters ast) (shaderTarget ctx) of
               Some slotRegister \<Rightarrow> Write ('', binding = '' @ to_string (slot slotRegister))
             | None \<Rightarrow> skip,
             Write '') uniform '',
             Write (bd_ident ast),
             EndLn,
             OpenScope,
             VisitVarDeclStmnts ctx (bd_members ast),
             CloseScope True,
             Blank])"

definition push_back_texture :: "string \<times> int \<Rightarrow> gen" where
  "push_back_texture rec s = Inr (s\<lparr>textures := textures s @ [rec]\<rparr>)"

definition WriteTextureDecl :: "gen_context \<Rightarrow> string option \<Rightarrow> TextureDecl \<Rightarrow> gen" where
  "WriteTextureDecl ctx samplerType texDecl =
     (if td_isReachable texDecl then
        (let binding = - 1
         in seq [BeginLn,
                 case GetForTarget ctx (td_slotRegisters texDecl) (shaderTarget ctx) of
                   Some slotRegister \<Rightarrow>
                     Write (''layout(binding = '' @ to_string (slot slotRegister) @ '') '')
                 | None \<Rightarrow> skip,
                 case samplerType of
                   Some keyword \<Rightarrow> Write (''uniform '' @ keyword @ '' '' @ td_ident texDecl @ '';'')
                 | None \<Rightarrow> undefined_behaviour,
                 if stats ctx then push_back_texture (td_ident texDecl, binding) else skip,
                 EndLn])
      else skip)"

definition VisitTextureDeclStmnt :: "gen_context \<Rightarrow> TextureDeclStmnt_node \<Rightarrow> gen" where
  "VisitTextureDeclStmnt ctx ast =
     (if \<not> tds_isReachable ast then skip
      else
        (let samplerType = BufferTypeToGLSLKeyword ctx (textureType ast)
         in seq [if samplerType = None
                 then Error ctx ''failed to map texture type to GLSL sampler type'' else skip,
                 seq (map (WriteTextureDecl ctx samplerType) (textureDecls ast)),
                 Blank]))"

definition IsAnonymous :: "struct_decl \<Rightarrow> bool" where
  "IsAnonymous ast = (sd_ident ast = [])"

function (sequential) VisitStmnt :: "gen_context \<Rightarrow> nat option \<Rightarrow> stmnt \<Rightarrow> gen"
and VisitStmnts :: "gen_context \<Rightarrow> stmnt list \<Rightarrow> gen"
and WriteScopedStmnt :: "gen_context \<Rightarrow> stmnt option \<Rightarrow> gen"
and VisitSwitchCase :: "gen_context \<Rightarrow> switch_case \<Rightarrow> gen"
and VisitSwitchCases :: "gen_context \<Rightarrow> switch_case list \<Rightarrow> gen"
where
  "VisitStmnt ctx args NullStmnt = WriteLn '';''"
| "VisitStmnt ctx args (CodeBlockStmnt stmnts) =
     seq [OpenScope, VisitStmnts ctx stmnts, CloseScope False]"
| "VisitStmnt ctx args (ForLoopStmnt initSmnt condition iteration bodyStmnt) =
     seq [BeginLn,
          Write ''for ('',
          PushOptions (False, False),
          VisitStmnt ctx None initSmnt,
          Write '' '',
          case condition of Some e \<Rightarrow> VisitExpr ctx e | None \<Rightarrow> skip,
          Write ''; '',
          case iteration of Some e \<Rightarrow> VisitExpr ctx e | None \<Rightarrow> skip,
          PopOptions,
          Write '')'',
          EndLn,
          WriteScopedStmnt ctx bodyStmnt]"
| "VisitStmnt ctx args (WhileLoopStmnt condition bodyStmnt) =
     seq [BeginLn, Write ''while ('', VisitExpr ctx condition, Write '')'', EndLn,
          WriteScopedStmnt ctx bodyStmnt]"
| "VisitStmnt ctx args (DoWhileLoopStmnt bodyStmnt condition) =
     seq [WriteLn ''do'',
          WriteScopedStmnt ctx bodyStmnt,
          BeginLn, Write ''while ('', VisitExpr ctx condition, Write '');'', EndLn]"
| "VisitStmnt ctx args (IfStmnt condition bodyStmnt elseStmnt) =
     seq [if args_undefined args then undefined_behaviour else skip,
          if \<not> args_flag args then BeginLn else skip,
          Write ''if ('',
          VisitExpr ctx condition,
          Write '')'',
          EndLn,
          WriteScopedStmnt ctx bodyStmnt,
          case elseStmnt of
            None \<Rightarrow> skip
          | Some elseBody \<Rightarrow>
              (if is_IfStmnt elseBody then
                 seq [BeginLn, Write ''else '',
                      VisitStmnt ctx (Some (localAddress ctx elseBody)) elseBody]
               else
                 seq [WriteLn ''else'', WriteScopedStmnt ctx (Some elseBody)])]"
| "VisitStmnt ctx args (SwitchStmnt selector cases) =
     seq [BeginLn, Write ''switch ('', VisitExpr ctx selector, Write '')'', EndLn,
          OpenScope, VisitSwitchCases ctx cases, CloseScope False]"
| "VisitStmnt ctx args (ExprStmnt e) = seq [BeginLn, VisitExpr ctx e, Write '';'', EndLn]"
| "VisitStmnt ctx args (ReturnStmnt e isEndOfFunction) =
     (\<lambda>s.
        (if isInsideEntryPoint s then
           seq [WriteOutputSemanticsAssignment ctx e,
                if \<not> isEndOfFunction then WriteLn ''return;'' else skip]
         else
           (case e of
              Some x \<Rightarrow> seq [BeginLn, Write ''return '', VisitExpr ctx x, Write '';'', EndLn]
            | None \<Rightarrow> if \<not> isEndOfFunction then WriteLn ''return;'' else skip)) s)"
| "VisitStmnt ctx args (CtrlTransferStmnt transfer) =
     WriteLn (CtrlTransformToString ctx transfer @ '';'')"
| "VisitStmnt ctx args (VarDeclStmnt_stmnt ast) = VisitVarDeclStmnt ctx ast"
| "VisitStmnt ctx args (StructDeclStmnt row sdecl) =
     (if \<not> sd_isReachable sdecl then skip
      else if \<not> MustResolveStruct ctx sdecl then
        seq [Line ctx row,
             VisitStructDecl ctx sdecl (Some (localAddress ctx (StructDeclStmnt row sdecl))),
             Blank]
      else skip)"
| "VisitStmnt ctx args (AliasDeclStmnt row sdecl) =
     (case sdecl of
        Some sd \<Rightarrow>
          (if \<not> IsAnonymous sd then
             seq [Line ctx row,
                  VisitStructDecl ctx sd (Some (localAddress ctx (AliasDeclStmnt row sdecl))),
                  Blank]
           else skip)
      | None \<Rightarrow> skip)"
| "VisitStmnt ctx args (FunctionDecl ast codeBlock) =
     (if \<not> fd_isReachable ast then
        (if hasNonReturnControlPath ast then
           Warning ctx (''not all control paths in unreferenced function '' @ [CHR 0x27]
             @ fd_ident ast @ [CHR 0x27] @ '' return a value'')
         else skip)
      else
        seq [if hasNonReturnControlPath ast then
               Error ctx (''not all control paths in function '' @ [CHR 0x27] @ fd_ident ast
                 @ [CHR 0x27] @ '' return a value'')
             else skip,
             Line ctx (fd_row ast),
             BeginLn,
             if isEntryPoint ast then Write ''void main()''
             else
               seq [VisitVarType ctx (returnType ast),
                    Write ('' '' @ fd_ident ast @ ''(''),
                    WriteParameters ctx (parameters ast),
                    Write '')'',
                    if codeBlock = None then Write '';'' else skip],
             EndLn,
             case codeBlock of
               Some stmnts \<Rightarrow>
                 (if isEntryPoint ast then
                    seq [OpenScope,
                         WriteLocalInputSemantics ctx,
                         WriteLocalOutputSemantics ctx,
                         set_isInsideEntryPoint True,
                         VisitStmnts ctx stmnts,
                         set_isInsideEntryPoint False,
                         if stmnts = [] \<or> \<not> is_ReturnStmnt (last stmnts)
                         then WriteOutputSemanticsAssignment ctx None else skip,
                         CloseScope False]
                  else seq [OpenScope, VisitStmnts ctx stmnts, CloseScope False])
             | None \<Rightarrow> skip,
             Blank])"
| "VisitStmnt ctx args (BufferDeclStmnt ast) = VisitBufferDeclStmnt ctx ast"
| "VisitStmnt ctx args (TextureDeclStmnt ast) = VisitTextureDeclStmnt ctx ast"
| "VisitStmnts ctx [] = skip"
| "VisitStmnts ctx (st # sts) = seq [VisitStmnt ctx None st, VisitStmnts ctx sts]"
| "WriteScopedStmnt ctx None = skip"
| "WriteScopedStmnt ctx (Some ast) =
     (if \<not> is_CodeBlockStmnt ast then seq [IncIndent, VisitStmnt ctx None ast, DecIndent]
      else VisitStmnt ctx None ast)"
| "VisitSwitchCase ctx (SwitchCase e stmnts) =
     seq [case e of
            Some x \<Rightarrow> seq [BeginLn, Write ''case '', VisitExpr ctx x, Write '':'', EndLn]
          | None \<Rightarrow> WriteLn ''default:'',
          IncIndent,
          VisitStmnts ctx stmnts,
          DecIndent]"
| "VisitSwitchCases ctx [] = skip"
| "VisitSwitchCases ctx (c # cs) = seq [VisitSwitchCase ctx c, VisitSwitchCases ctx cs]"
  by pat_completeness auto

termination
  by (relation "measure (case_sum
      (case_sum (\<lambda>(ctx, args, st). size st) (\<lambda>(ctx, sts). size_list size sts))
      (case_sum (\<lambda>(ctx, st). size_option size st)
        (case_sum (\<lambda>(ctx, c). size c) (\<lambda>(ctx, cs). size_list size cs))))")
    auto

subsection \<open>The program and the entry of the generator\<close>

definition WriteVersionAndExtensions :: "gen_context \<Rightarrow> Program \<Rightarrow> gen" where
  "WriteVersionAndExtensions ctx ast =
     (case DetermineRequiredExtensions ctx ast (versionOut ctx) (shaderTarget ctx)
             (allowExtensions ctx) of
        Inr requiredExtensions \<Rightarrow>
          seq [Version (versionOut ctx),
               Blank,
               if requiredExtensions \<noteq> [] then
                 seq [seq (map WriteExtension requiredExtensions), Blank]
               else skip]
      | Inl what \<Rightarrow> Error ctx what)"

definition WriteClipIntrinsics :: gen where
  "WriteClipIntrinsics =
     seq [WriteLn ''void clip(float x) { if (x < 0.0) discard; }'',
          seq (map (\<lambda>typeName.
                 WriteLn (''void clip('' @ typeName @ '' x) { if (any(lessThan(x, '' @ typeName
                   @ ''(0.0)))) discard; }''))
               [''vec2'', ''vec3'', ''vec4'']),
          Blank]"

definition WriteReferencedIntrinsics :: "Program \<Rightarrow> gen" where
  "WriteReferencedIntrinsics ast =
     (if Clip \<in> usedIntrinsics ast then WriteClipIntrinsics else skip)"

definition VisitProgram :: "gen_context \<Rightarrow> Program \<Rightarrow> gen" where
  "VisitProgram ctx ast =
     seq [WriteVersionAndExtensions ctx ast,
          if shaderTarget ctx = FragmentShader then
            seq [BeginLn,
                 Write ''layout(origin_upper_left'',
                 if hasSM3ScreenSpace (program ctx) then Write '', pixel_center_integer'' else skip,
                 Write '') in vec4 gl_FragCoord;'',
                 EndLn,
                 Blank]
          else skip,
          case entryPointRef ast of
            None \<Rightarrow> undefined_behaviour
          | Some entryPoint \<Rightarrow>
              (if attribs entryPoint \<noteq> [] then
                 seq [seq (map (WriteAttribute ctx) (attribs entryPoint)), Blank]
               else skip),
          WriteReferencedIntrinsics ast,
          if shaderTarget ctx = VertexShader then WriteGlobalInputSemantics ctx
          else if shaderTarget ctx = FragmentShader then WriteGlobalOutputSemantics ctx
          else skip,
          VisitStmnts ctx (globalStmnts ast)]"

record ShaderInput =
  in_shaderTarget :: ShaderTarget
  entryPoint :: string

record ShaderOutput =
  shaderVersion :: int
  options_allowExtensions :: bool
  formatting_lineMarks :: bool
  formatting_prefix :: string
  statistics :: bool

text \<open>
  \<open>GenerateCodePrimary\<close> of a generator with the given tables: \<open>gen\<close> holds the
  members before the call, \<open>timePoint\<close> is the string that \<open>TimePoint()\<close> returns when
  the header is written. A thrown \<open>Report\<close> is thrown on to the caller.
\<close>

definition GenerateCodePrimary ::
  "gen_context \<Rightarrow> Program \<Rightarrow> ShaderInput \<Rightarrow> ShaderOutput \<Rightarrow> string \<Rightarrow> gen" where
  "GenerateCodePrimary gen prog inputDesc outputDesc timePoint =
     (let ctx = gen\<lparr>shaderTarget := in_shaderTarget inputDesc,
                     versionOut := shaderVersion outputDesc,
                     allowExtensions := options_allowExtensions outputDesc,
                     allowLineMarks := formatting_lineMarks outputDesc,
                     nameManglingPrefix := formatting_prefix outputDesc,
                     stats := statistics outputDesc\<rparr>
      in if entryPointRef prog \<noteq> None then
           (let prog' = MarkReferencesFromEntryPoint ctx
                          (Convert ctx (MarkControlPaths ctx prog) (in_shaderTarget inputDesc)
                             (formatting_prefix outputDesc));
                ctx' = ctx\<lparr>program := prog'\<rparr>
            in seq [if entryPoint inputDesc = [] then
                      Comment (''GLSL '' @ TargetToString ctx (shaderTarget ctx))
                    else
                      Comment (''GLSL '' @ TargetToString ctx (shaderTarget ctx) @ '' '' @ [CHR 0x22]
                        @ entryPoint inputDesc @ [CHR 0x22]),
                    Comment ''Generated by XShaderCompiler'',
                    Comment timePoint,
                    Blank,
                    VisitProgram ctx' prog'])
         else
           Error ctx (''entry point '' @ [CHR 0x22] @ entryPoint inputDesc @ [CHR 0x22]
             @ '' not found''))"

subsection \<open>A fresh generator, emitted text, and two properties of a call\<close>

text \<open>
  The state of a newly constructed generator. The emission of a call is the text it writes
  when it starts there.
\<close>

definition initial_state :: gen_state where
  "initial_state = \<lparr>sink = [], indent = 0, options = [], isInsideEntryPoint = False,
     isInsideInterfaceBlock = False, log = [], textures = []\<rparr>"

definition emission :: "gen \<Rightarrow> string option" where
  "emission m = (case m initial_state of Inl a \<Rightarrow> None | Inr s' \<Rightarrow> Some (sink s'))"

definition text_only :: "gen \<Rightarrow> bool" where
  "text_only m \<longleftrightarrow>
     (\<exists>r. \<forall>s. m s = (case r of Inl a \<Rightarrow> Inl a
                      | Inr (t, d) \<Rightarrow> Inr (s\<lparr>sink := sink s @ t, log := log s @ d\<rparr>)))"

text \<open>
  A call is framed if the text and the reports already present only stay in front of what
  it writes and reports; it is text-only if all it does is to append a fixed text and fixed
  reports, or to throw.
\<close>

definition frame :: "gen \<Rightarrow> bool" where
  "frame m \<longleftrightarrow>
     (\<forall>s p l. m (s\<lparr>sink := p @ sink s, log := l @ log s\<rparr>) =
        (case m s of Inl a \<Rightarrow> Inl a
         | Inr s' \<Rightarrow> Inr (s'\<lparr>sink := p @ sink s', log := l @ log s'\<rparr>)))"

definition parenthesized :: "bool \<Rightarrow> string \<Rightarrow> string" where
  "parenthesized b t = (if b then ''('' @ t @ '')'' else t)"

subsection \<open>A small generator for the examples\<close>

definition example_program :: Program where
  "example_program = \<lparr>globalStmnts = [],
     entryPointRef = Some \<lparr>attribs = [],
       ep_semantic = \<lparr>semantic_id = 1, IsValid = True, IsSystemValue = True, Index = 0\<rparr>,
       inputSemantics_varDeclRefs = [], inputSemantics_varDeclRefsSV = [],
       outputSemantics_varDeclRefs = [], outputSemantics_varDeclRefsSV = []\<rparr>,
     usedIntrinsics = {}, hasSM3ScreenSpace = False\<rparr>"

definition example_generator :: gen_context where
  "example_generator = \<lparr>
     errorAborts = True,
     TargetToString = (\<lambda>t. if t = VertexShader then ''Vertex Shader'' else ''Shader''),
     BufferTypeToGLSLKeyword = (\<lambda>b. if b = 1 then Some ''sampler2D'' else None),
     StorageClassToGLSLKeyword = (\<lambda>c. None),
     SemanticToGLSLKeyword = (\<lambda>sem. if semantic_id sem = 1 then Some ''gl_Position'' else None),
     DataTypeToGLSLKeyword =
       (\<lambda>d. if d = 0 then Some ''float'' else if d = 1 then Some ''vec4''
            else if d = 2 then Some ''mat4'' else None),
     IntrinsicToGLSLKeyword = (\<lambda>i. None),
     DoubleToFloatDataType = (\<lambda>d. d),
     SubscriptDataType = (\<lambda>d sub. d),
     IsScalarType = (\<lambda>d. d = 0),
     BinaryOpToString = (\<lambda>op. if op = 0 then ''+'' else ''*''),
     UnaryOpToString = (\<lambda>op. ''-''),
     AssignOpToString = (\<lambda>op. ''=''),
     CtrlTransformToString = (\<lambda>t. if t = 0 then ''break'' else ''continue''),
     MustResolveStructForTarget = (\<lambda>t sd. False),
     GetForTarget = (\<lambda>regs t. case regs of [] \<Rightarrow> None | r # _ \<Rightarrow> Some r),
     GetTypeDenoter = (\<lambda>e. BaseTypeDenoter 1),
     GetExplicitTypeDenoter = (\<lambda>v. BaseTypeDenoter 1),
     VarIdentToString = ident,
     InvalidNumArgsMessage = (\<lambda>n. ''invalid number of arguments for '' @ n),
     DetermineRequiredExtensions = (\<lambda>p v t a. Inr []),
     MarkControlPaths = (\<lambda>p. p),
     Convert = (\<lambda>p t prefix. p),
     MarkReferencesFromEntryPoint = (\<lambda>p. p),
     localAddress = (\<lambda>st. 140722317466369),
     shaderTarget = VertexShader,
     versionOut = 330,
     allowExtensions = False,
     allowLineMarks = True,
     nameManglingPrefix = ''xsc_'',
     stats = True,
     program = example_program\<rparr>"

definition var :: "string \<Rightarrow> expr" where
  "var name = VarAccessExpr (VarIdent name [] None None) None"

subsection \<open>Lines of the output\<close>

text \<open>
  The text that \<open>WriteLn\<close> appends for a line: the indentation and the line break
  follow the current options of the writer.
\<close>

definition line_text :: "gen_state \<Rightarrow> string \<Rightarrow> string" where
  "line_text s text =
     (if snd (CurrentOptions s) then FullIndent s else []) @ text
       @ (if fst (CurrentOptions s) then [CHR 0x0A] else [])"

text \<open>
  The output split at its line breaks; a blank line holds spaces only, and a comment
  line begins, after its indentation, with \<open>//\<close>.
\<close>

fun split_lines :: "string \<Rightarrow> string \<Rightarrow> string list" where
  "split_lines line [] = [line]"
| "split_lines line (c # cs) =
     (if c = CHR 0x0A then line # split_lines [] cs else split_lines (line @ [c]) cs)"

definition lines_of :: "string \<Rightarrow> string list" where
  "lines_of text = split_lines [] text"

definition is_blank :: "string \<Rightarrow> bool" where
  "is_blank line = list_all (\<lambda>c. c = CHR '' '') line"

definition is_comment :: "string \<Rightarrow> bool" where
  "is_comment line = (take 2 (dropWhile (\<lambda>c. c = CHR '' '') line) = ''//'')"

definition first_non_blank_line :: "string \<Rightarrow> string option" where
  "first_non_blank_line text = find (\<lambda>line. \<not> is_blank line) (lines_of text)"

definition first_code_line :: "string \<Rightarrow> string option" where
  "first_code_line text = find (\<lambda>line. \<not> is_blank line \<and> \<not> is_comment line) (lines_of text)"

text \<open>
  No report of the log is an error.
\<close>

definition no_error_reported :: "gen_state \<Rightarrow> bool" where
  "no_error_reported s = list_all (\<lambda>report. fst report \<noteq> SeverityError) (log s)"

subsection \<open>The header and the members of a run\<close>

text \<open>
  The first comment of \<open>GenerateCodePrimary\<close>, and the members it stores before it
  visits the program.
\<close>

definition header_target :: "gen_context \<Rightarrow> ShaderInput \<Rightarrow> string" where
  "header_target gen inputDesc =
     (if entryPoint inputDesc = [] then
        ''GLSL '' @ TargetToString gen (in_shaderTarget inputDesc)
      else ''GLSL '' @ TargetToString gen (in_shaderTarget inputDesc) @ '' '' @ [CHR 0x22]
        @ entryPoint inputDesc @ [CHR 0x22])"

definition stored_context :: "gen_context \<Rightarrow> Program \<Rightarrow> ShaderInput \<Rightarrow> ShaderOutput \<Rightarrow> gen_context" where
  "stored_context gen prog inputDesc outputDesc =
     gen\<lparr>shaderTarget := in_shaderTarget inputDesc,
         versionOut := shaderVersion outputDesc,
         allowExtensions := options_allowExtensions outputDesc,
         allowLineMarks := formatting_lineMarks outputDesc,
         nameManglingPrefix := formatting_prefix outputDesc,
         stats := statistics outputDesc,
         program := MarkReferencesFromEntryPoint gen
                      (Convert gen (MarkControlPaths gen prog) (in_shaderTarget inputDesc)
                         (formatting_prefix outputDesc))\<rparr>"

subsection \<open>The assignments of a return statement\<close>

text \<open>
  The line that \<open>WriteOutputSemanticsAssignment\<close> writes for a system-value output
  variable of the entry point, if it writes one, and the lines for a list of them.
\<close>

definition output_assignment :: "gen_context \<Rightarrow> VarDeclRef_node \<Rightarrow> string option" where
  "output_assignment ctx varDecl =
     (if IsValid (semantic (ref_varDecl varDecl)) then
        map_option (\<lambda>semanticKeyword.
            semanticKeyword @ '' = '' @ vd_ident (ref_varDecl varDecl) @ '';'')
          (SemanticToGLSLKeyword ctx (semantic (ref_varDecl varDecl)))
      else None)"

definition output_assignments :: "gen_context \<Rightarrow> gen_state \<Rightarrow> VarDeclRef_node list \<Rightarrow> string" where
  "output_assignments ctx s varDeclRefs =
     concat (map (\<lambda>varDecl. case output_assignment ctx varDecl of
                              Some line \<Rightarrow> line_text s line | None \<Rightarrow> [])
               varDeclRefs)"

subsection \<open>Declarations that call Line\<close>

text \<open>
  \<open>Line(ast)\<close> is called in four visitors only: \<open>VisitFunctionDecl\<close>,
  \<open>VisitBufferDeclStmnt\<close>, \<open>VisitStructDeclStmnt\<close> and \<open>VisitAliasDeclStmnt\<close>, each
  after its early returns. \<open>line_mark_row\<close> is the row such a call passes on, if the
  visitor of the statement reaches the call; \<open>has_line_mark\<close> holds for a statement in
  which some visitor reaches it (nothing inside an unreachable function is visited), and
  \<open>has_inner_line_mark\<close> for a function declaration in whose body one does.
\<close>

fun line_mark_row :: "gen_context \<Rightarrow> stmnt \<Rightarrow> int option" where
  "line_mark_row ctx (FunctionDecl ast codeBlock) =
     (if fd_isReachable ast then Some (fd_row ast) else None)"
| "line_mark_row ctx (BufferDeclStmnt ast) =
     (if bd_isReachable ast then Some (bd_row ast) else None)"
| "line_mark_row ctx (StructDeclStmnt row sdecl) =
     (if sd_isReachable sdecl \<and> \<not> MustResolveStruct ctx sdecl then Some row else None)"
| "line_mark_row ctx (AliasDeclStmnt row sdecl) =
     (case sdecl of Some sd \<Rightarrow> if \<not> IsAnonymous sd then Some row else None | None \<Rightarrow> None)"
| "line_mark_row ctx st = None"

fun has_line_mark :: "gen_context \<Rightarrow> stmnt \<Rightarrow> bool"
and has_line_mark_list :: "gen_context \<Rightarrow> stmnt list \<Rightarrow> bool"
and has_line_mark_option :: "gen_context \<Rightarrow> stmnt option \<Rightarrow> bool"
and has_line_mark_case :: "gen_context \<Rightarrow> switch_case \<Rightarrow> bool"
and has_line_mark_cases :: "gen_context \<Rightarrow> switch_case list \<Rightarrow> bool"
where
  "has_line_mark ctx (FunctionDecl ast codeBlock) = fd_isReachable ast"
| "has_line_mark ctx (BufferDeclStmnt ast) = bd_isReachable ast"
| "has_line_mark ctx (StructDeclStmnt row sdecl) =
     (sd_isReachable sdecl \<and> \<not> MustResolveStruct ctx sdecl)"
| "has_line_mark ctx (AliasDeclStmnt row sdecl) =
     (case sdecl of Some sd \<Rightarrow> \<not> IsAnonymous sd | None \<Rightarrow> False)"
| "has_line_mark ctx (CodeBlockStmnt stmnts) = has_line_mark_list ctx stmnts"
| "has_line_mark ctx (ForLoopStmnt initSmnt condition iteration bodyStmnt) =
     (has_line_mark ctx initSmnt \<or> has_line_mark_option ctx bodyStmnt)"
| "has_line_mark ctx (WhileLoopStmnt condition bodyStmnt) = has_line_mark_option ctx bodyStmnt"
| "has_line_mark ctx (DoWhileLoopStmnt bodyStmnt condition) = has_line_mark_option ctx bodyStmnt"
| "has_line_mark ctx (IfStmnt condition bodyStmnt elseStmnt) =
     (has_line_mark_option ctx bodyStmnt \<or> has_line_mark_option ctx elseStmnt)"
| "has_line_mark ctx (SwitchStmnt selector cases) = has_line_mark_cases ctx cases"
| "has_line_mark ctx st = False"
| "has_line_mark_list ctx [] = False"
| "has_line_mark_list ctx (st # sts) = (has_line_mark ctx st \<or> has_line_mark_list ctx sts)"
| "has_line_mark_option ctx None = False"
| "has_line_mark_option ctx (Some st) = has_line_mark ctx st"
| "has_line_mark_case ctx (SwitchCase e stmnts) = has_line_mark_list ctx stmnts"
| "has_line_mark_cases ctx [] = False"
| "has_line_mark_cases ctx (c # cs) = (has_line_mark_case ctx c \<or> has_line_mark_cases ctx cs)"

fun has_inner_line_mark :: "gen_context \<Rightarrow> stmnt \<Rightarrow> bool" where
  "has_inner_line_mark ctx (FunctionDecl ast (Some stmnts)) = has_line_mark_list ctx stmnts"
| "has_inner_line_mark ctx st = False"

subsection \<open>Further examples\<close>

definition example_function :: "bool \<Rightarrow> FunctionDecl_node" where
  "example_function reachable = \<lparr>fd_row = 7, fd_ident = ''f'', fd_isReachable = reachable,
     hasNonReturnControlPath = True, isEntryPoint = False,
     returnType = VarType None (BaseTypeDenoter 0), parameters = []\<rparr>"

definition example_entry_state :: gen_state where
  "example_entry_state = initial_state\<lparr>indent := 1, isInsideEntryPoint := True\<rparr>"

definition example_texture :: TextureDeclStmnt_node where
  "example_texture = \<lparr>tds_isReachable = True, textureType = 1,
     textureDecls = [\<lparr>td_ident = ''tex'', td_isReachable = True,
       td_slotRegisters = [\<lparr>reg_shaderTarget = None, registerType = CHR ''t'', slot = 3\<rparr>]\<rparr>]\<rparr>"

definition example_input :: ShaderInput where
  "example_input = \<lparr>in_shaderTarget = VertexShader, entryPoint = ''main''\<rparr>"

definition example_output :: ShaderOutput where
  "example_output = \<lparr>shaderVersion = 330, options_allowExtensions = False,
     formatting_lineMarks = False, formatting_prefix = ''xsc_'', statistics = False\<rparr>"

definition example_result :: "string \<Rightarrow> gen_state" where
  "example_result timePoint =
     initial_state\<lparr>sink := ''// GLSL Vertex Shader '' @ [CHR 0x22] @ ''main'' @ [CHR 0x22, CHR 0x0A]
       @ ''// Generated by XShaderCompiler'' @ [CHR 0x0A]
       @ ''// '' @ timePoint @ [CHR 0x0A, CHR 0x0A]
       @ ''#version 330'' @ [CHR 0x0A, CHR 0x0A]\<rparr>"

definition example_buffer :: BufferDeclStmnt_node where
  "example_buffer = \<lparr>bd_row = 7, bd_ident = ''b'', bd_isReachable = True,
     bd_slotRegisters = [], bd_members = []\<rparr>"

definition example_buffer_text :: string where
  "example_buffer_text = ''layout(std140) uniform b'' @ [CHR 0x0A] @ ''{'' @ [CHR 0x0A]
     @ ''};'' @ [CHR 0x0A, CHR 0x0A]"

definition example_output_variable :: VarDeclRef_node where
  "example_output_variable =
     \<lparr>ref_varDecl = VarDecl ''o'' [] None
        \<lparr>semantic_id = 1, IsValid = True, IsSystemValue = True, Index = 0\<rparr> False,
      declStmntRef_varType = VarType None (BaseTypeDenoter 1)\<rparr>"

definition example_output_entry_point :: EntryPoint where
  "example_output_entry_point = \<lparr>attribs = [],
     ep_semantic = \<lparr>semantic_id = 1, IsValid = True, IsSystemValue = True, Index = 0\<rparr>,
     inputSemantics_varDeclRefs = [], inputSemantics_varDeclRefsSV = [],
     outputSemantics_varDeclRefs = [],
     outputSemantics_varDeclRefsSV = [example_output_variable]\<rparr>"

definition example_output_generator :: gen_context where
  "example_output_generator =
     example_generator\<lparr>program :=
       example_program\<lparr>entryPointRef := Some example_output_entry_point\<rparr>\<rparr>"

definition example_user_generator :: gen_context where
  "example_user_generator =
     example_generator\<lparr>program := example_program\<lparr>entryPointRef := Some \<lparr>attribs = [],
       ep_semantic = \<lparr>semantic_id = 2, IsValid = True, IsSystemValue = False, Index = 0\<rparr>,
       inputSemantics_varDeclRefs = [], inputSemantics_varDeclRefsSV = [],
       outputSemantics_varDeclRefs = [], outputSemantics_varDeclRefsSV = []\<rparr>\<rparr>\<rparr>"

definition example_struct :: stmnt where
  "example_struct = StructDeclStmnt 3 (StructDecl ''S'' [] False False False True [] [] None)"

section \<open>Properties\<close>

subsection \<open>Expressions only write text\<close>

lemma text_onlyI_abort: "(\<And>s. m s = Inl a) \<Longrightarrow> text_only m"
  unfolding text_only_def by (rule exI [of _ "Inl a"]) simp

lemma text_onlyI_text:
  "(\<And>s. m s = Inr (s\<lparr>sink := sink s @ t, log := log s @ d\<rparr>)) \<Longrightarrow> text_only m"
  unfolding text_only_def by (rule exI [of _ "Inr (t, d)"]) simp

lemma text_only_skip [simp, intro!]: "text_only skip"
  by (rule text_onlyI_text [where t = "[]" and d = "[]"]) (simp add: skip_def)

lemma text_only_undefined_behaviour [simp, intro!]: "text_only undefined_behaviour"
  by (rule text_onlyI_abort) (simp add: undefined_behaviour_def)

lemma text_only_Write [simp, intro!]: "text_only (Write t)"
  by (rule text_onlyI_text [where t = t and d = "[]"]) (simp add: Write_def)

lemma text_only_Error [simp, intro!]: "text_only (Error ctx msg)"
proof (cases "errorAborts ctx")
  case True
  then show ?thesis by (intro text_onlyI_abort) (simp add: Error_def)
next
  case False
  then show ?thesis
    by (intro text_onlyI_text [where t = "[]" and d = "[(SeverityError, msg)]"]) (simp add: Error_def)
qed

lemma text_only_seq_Nil [simp]: "text_only (seq [])"
  by (rule text_onlyI_text [where t = "[]" and d = "[]"]) (simp add: seq.simps)

lemma text_only_seq_Cons:
  assumes "text_only m" and "text_only (seq ms)"
  shows "text_only (seq (m # ms))"
proof -
  from assms(1) obtain r1 where r1: "\<And>s. m s = (case r1 of Inl a \<Rightarrow> Inl a
      | Inr (t, d) \<Rightarrow> Inr (s\<lparr>sink := sink s @ t, log := log s @ d\<rparr>))"
    unfolding text_only_def by blast
  from assms(2) obtain r2 where r2: "\<And>s. seq ms s = (case r2 of Inl a \<Rightarrow> Inl a
      | Inr (t, d) \<Rightarrow> Inr (s\<lparr>sink := sink s @ t, log := log s @ d\<rparr>))"
    unfolding text_only_def by blast
  show ?thesis
  proof (cases r1)
    case (Inl a)
    then show ?thesis by (intro text_onlyI_abort [where a = a]) (simp add: seq.simps r1)
  next
    case r1': (Inr p1)
    obtain t1 d1 where p1: "p1 = (t1, d1)" by (cases p1)
    show ?thesis
    proof (cases r2)
      case (Inl a)
      then show ?thesis
        by (intro text_onlyI_abort [where a = a]) (simp add: seq.simps r1 r2 r1' p1)
    next
      case r2': (Inr p2)
      obtain t2 d2 where p2: "p2 = (t2, d2)" by (cases p2)
      show ?thesis
        by (intro text_onlyI_text [where t = "t1 @ t2" and d = "d1 @ d2"])
           (simp add: seq.simps r1 r2 r1' p1 r2' p2)
    qed
  qed
qed

lemma text_only_seq [intro!]: "(\<And>m. m \<in> set ms \<Longrightarrow> text_only m) \<Longrightarrow> text_only (seq ms)"
  by (induction ms) (auto intro: text_only_seq_Cons)

lemma text_only_if [intro!]:
  "(c \<Longrightarrow> text_only a) \<Longrightarrow> (\<not> c \<Longrightarrow> text_only b) \<Longrightarrow> text_only (if c then a else b)"
  by simp

lemma text_only_WriteDataType [simp, intro!]: "text_only (WriteDataType ctx d)"
  by (simp add: WriteDataType_def Let_def split: option.splits)

lemma text_only_AssertIntrinsicNumArgs [simp, intro!]:
  "text_only (AssertIntrinsicNumArgs ctx args lo hi)"
  by (simp add: AssertIntrinsicNumArgs_def)

lemma text_only_WriteSuffixVarIdentBegin [simp, intro!]:
  "text_only (WriteSuffixVarIdentBegin ctx t v)"
  by (induction ctx t v rule: WriteSuffixVarIdentBegin.induct)
     (auto split: option.splits type_denoter.splits)

lemmas expr_simps =
  VisitExpr.simps WriteArrayDims.simps VisitArguments.simps WriteVarIdent.simps
  WriteSuffixVarIdentEnd.simps WriteTypeDenoter.simps VisitFunctionCall.simps
  WriteFunctionCallStandard.simps WriteMulArgument.simps WriteFunctionCallIntrinsicMul.simps
  WriteFunctionCallIntrinsicRcp.simps WriteFunctionCallIntrinsicAtomic.simps

lemma text_only_expr:
  "text_only (VisitExpr ctx e)"
  "text_only (WriteArrayDims ctx es)"
  "text_only (VisitArguments ctx es)"
  "text_only (WriteVarIdent ctx vi r)"
  "text_only (WriteSuffixVarIdentEnd ctx t vi)"
  "text_only (WriteTypeDenoter ctx td)"
  "text_only (VisitFunctionCall ctx call)"
  "text_only (WriteFunctionCallStandard ctx call)"
  "text_only (WriteMulArgument ctx e)"
  "text_only (WriteFunctionCallIntrinsicMul ctx call)"
  "text_only (WriteFunctionCallIntrinsicRcp ctx call)"
  "text_only (WriteFunctionCallIntrinsicAtomic ctx call)"
  by (induction ctx e and ctx es and ctx es and ctx vi r and ctx t vi and ctx td and ctx call
        and ctx call and ctx e and ctx call and ctx call and ctx call
      rule: VisitExpr_WriteArrayDims_VisitArguments_WriteVarIdent_WriteSuffixVarIdentEnd_WriteTypeDenoter_VisitFunctionCall_WriteFunctionCallStandard_WriteMulArgument_WriteFunctionCallIntrinsicMul_WriteFunctionCallIntrinsicRcp_WriteFunctionCallIntrinsicAtomic.induct)
     ((subst expr_simps,
       (auto simp del: expr_simps simp: Let_def split: option.splits list.splits)[1])+)

lemma text_only_frame:
  assumes "text_only m"
  shows "frame m"
proof -
  from assms obtain r where r: "\<And>s. m s = (case r of Inl a \<Rightarrow> Inl a
      | Inr (t, d) \<Rightarrow> Inr (s\<lparr>sink := sink s @ t, log := log s @ d\<rparr>))"
    unfolding text_only_def by blast
  show ?thesis
  proof (cases r)
    case (Inl a)
    then show ?thesis by (simp add: frame_def r)
  next
    case (Inr p)
    then show ?thesis by (cases p) (simp add: frame_def r)
  qed
qed

lemma text_only_result:
  assumes "text_only m" and "m s = Inr s'"
  shows "\<exists>t d. emission m = Some t \<and> (\<forall>u. m u = Inr (u\<lparr>sink := sink u @ t, log := log u @ d\<rparr>))"
proof -
  from assms(1) obtain r where r: "\<And>s. m s = (case r of Inl a \<Rightarrow> Inl a
      | Inr (t, d) \<Rightarrow> Inr (s\<lparr>sink := sink s @ t, log := log s @ d\<rparr>))"
    unfolding text_only_def by blast
  from assms(2) r [of s] obtain t d where "r = Inr (t, d)"
    by (cases r) auto
  with r show ?thesis
    by (auto simp: emission_def initial_state_def)
qed

lemma text_only_emission:
  assumes "text_only m" and "emission m = Some t"
  shows "\<exists>d. \<forall>u. m u = Inr (u\<lparr>sink := sink u @ t, log := log u @ d\<rparr>)"
proof -
  from assms(2) obtain s' where "m initial_state = Inr s'"
    by (auto simp: emission_def split: sum.splits)
  from text_only_result [OF assms(1) this] assms(2) show ?thesis by auto
qed

lemma text_only_cases:
  assumes "text_only m"
  obtains (aborts) a where "\<And>u. m u = Inl a" and "emission m = None"
  | (writes) t d where "\<And>u. m u = Inr (u\<lparr>sink := sink u @ t, log := log u @ d\<rparr>)"
      and "emission m = Some t"
proof -
  from assms obtain r where r: "\<And>s. m s = (case r of Inl a \<Rightarrow> Inl a
      | Inr (t, d) \<Rightarrow> Inr (s\<lparr>sink := sink s @ t, log := log s @ d\<rparr>))"
    unfolding text_only_def by blast
  show thesis
  proof (cases r)
    case (Inl a)
    with r have "\<And>u. m u = Inl a" and "emission m = None"
      by (simp_all add: emission_def)
    then show thesis by (rule aborts)
  next
    case (Inr p)
    obtain t d where "p = (t, d)" by (cases p)
    with Inr r have "\<And>u. m u = Inr (u\<lparr>sink := sink u @ t, log := log u @ d\<rparr>)"
      and "emission m = Some t"
      by (simp_all add: emission_def initial_state_def)
    then show thesis by (rule writes)
  qed
qed

subsection \<open>Every call keeps what was written before\<close>

lemma frame_skip [simp, intro!]: "frame skip"
  by (simp add: frame_def skip_def)

lemma frame_undefined_behaviour [simp, intro!]: "frame undefined_behaviour"
  by (simp add: frame_def undefined_behaviour_def)

lemma frame_Write [simp, intro!]: "frame (Write t)"
  by (simp add: frame_def Write_def)

lemma frame_seq_Cons: "frame m \<Longrightarrow> frame (seq ms) \<Longrightarrow> frame (seq (m # ms))"
  unfolding frame_def by (auto simp: seq.simps split: sum.splits)

lemma frame_seq_Nil [simp]: "frame (seq [])"
  by (simp add: frame_def seq.simps)

lemma frame_seq [intro!]: "(\<And>m. m \<in> set ms \<Longrightarrow> frame m) \<Longrightarrow> frame (seq ms)"
  by (induction ms) (auto intro: frame_seq_Cons)

lemma frame_BeginLn [simp, intro!]: "frame BeginLn"
  by (simp add: frame_def BeginLn_def Write_def CurrentOptions_def FullIndent_def)

lemma frame_EndLn [simp, intro!]: "frame EndLn"
  by (simp add: frame_def EndLn_def Write_def CurrentOptions_def)

lemma frame_WriteLn [simp, intro!]: "frame (WriteLn t)"
  unfolding WriteLn_def by (rule frame_seq) auto

lemma frame_Blank [simp, intro!]: "frame Blank"
  by (simp add: Blank_def)

lemma frame_IncIndent [simp, intro!]: "frame IncIndent"
  by (simp add: frame_def IncIndent_def)

lemma frame_DecIndent [simp, intro!]: "frame DecIndent"
  by (simp add: frame_def DecIndent_def)

lemma frame_PushOptions [simp, intro!]: "frame (PushOptions opt)"
  by (simp add: frame_def PushOptions_def)

lemma frame_PopOptions [simp, intro!]: "frame PopOptions"
  by (simp add: frame_def PopOptions_def)

lemma frame_Error [simp, intro!]: "frame (Error ctx msg)"
  by (simp add: frame_def Error_def)

lemma frame_Warning [simp, intro!]: "frame (Warning ctx msg)"
  by (simp add: frame_def Warning_def)

lemma frame_if [intro!]: "(c \<Longrightarrow> frame a) \<Longrightarrow> (\<not> c \<Longrightarrow> frame b) \<Longrightarrow> frame (if c then a else b)"
  by simp

lemma frame_WriteDataType [simp, intro!]: "frame (WriteDataType ctx d)"
  by (simp add: WriteDataType_def Let_def split: option.splits)

lemma frame_AssertIntrinsicNumArgs [simp, intro!]: "frame (AssertIntrinsicNumArgs ctx args lo hi)"
  by (simp add: AssertIntrinsicNumArgs_def)

lemma frame_expr [simp, intro!]:
  "frame (VisitExpr ctx e)"
  "frame (WriteArrayDims ctx es)"
  "frame (VisitArguments ctx es)"
  "frame (WriteVarIdent ctx vi r)"
  "frame (WriteTypeDenoter ctx td)"
  by (simp_all add: text_only_frame text_only_expr)

lemma frame_seq_map [intro!]: "(\<And>x. x \<in> set xs \<Longrightarrow> frame (f x)) \<Longrightarrow> frame (seq (map f xs))"
  by (rule frame_seq) auto

lemma frame_Line [simp, intro!]: "frame (Line ctx n)"
  by (simp add: Line_def)

lemma frame_Comment [simp, intro!]: "frame (Comment t)"
  by (simp add: Comment_def)

lemma frame_Version [simp, intro!]: "frame (Version n)"
  by (simp add: Version_def)

lemma frame_WriteExtension [simp, intro!]: "frame (WriteExtension n)"
  by (simp add: WriteExtension_def)

lemma frame_OpenScope [simp, intro!]: "frame OpenScope"
  unfolding OpenScope_def by (rule frame_seq) auto

lemma frame_CloseScope [simp, intro!]: "frame (CloseScope b)"
  unfolding CloseScope_def by (rule frame_seq) auto

lemma frame_set_isInsideInterfaceBlock [simp, intro!]: "frame (set_isInsideInterfaceBlock b)"
  by (simp add: frame_def set_isInsideInterfaceBlock_def)

lemma frame_set_isInsideEntryPoint [simp, intro!]: "frame (set_isInsideEntryPoint b)"
  by (simp add: frame_def set_isInsideEntryPoint_def)

lemma frame_push_back_texture [simp, intro!]: "frame (push_back_texture r)"
  by (simp add: frame_def push_back_texture_def)

lemma frame_ErrorInvalidNumArgs [simp, intro!]: "frame (ErrorInvalidNumArgs ctx n)"
  by (simp add: ErrorInvalidNumArgs_def)

lemma frame_VisitVarDecl [simp, intro!]: "frame (VisitVarDecl ctx v)"
  unfolding VisitVarDecl_def by (auto simp: frame_expr split: option.splits)

lemma frame_VisitVarDecls [simp, intro!]: "frame (VisitVarDecls ctx vs)"
  by (induction ctx vs rule: VisitVarDecls.induct) auto

lemma frame_WriteStorageClasses [simp, intro!]: "frame (WriteStorageClasses ctx cs)"
  by (induction ctx cs rule: WriteStorageClasses.induct) (auto split: option.splits)

lemma frame_WriteTypeModifiers [simp, intro!]: "frame (WriteTypeModifiers ms)"
  by (induction ms) auto

lemma frame_state_dependent:
  assumes "\<And>s. frame (f s)"
    and "\<And>s p l. f (s\<lparr>sink := p @ sink s, log := l @ log s\<rparr>) = f s"
  shows "frame (\<lambda>s. f s s)"
  using assms unfolding frame_def by simp

lemmas decl_simps =
  VisitVarType.simps VisitStructDecl.simps WriteNestedStructDecls.simps WriteStructDecl.simps
  WriteStructDeclMembers.simps VisitVarDeclStmnt.simps VisitVarDeclStmnts.simps

lemma frame_decl:
  "frame (VisitVarType ctx vt)"
  "frame (VisitStructDecl ctx sd args)"
  "frame (WriteNestedStructDecls ctx sds)"
  "frame (WriteStructDecl ctx sd b c)"
  "frame (WriteStructDeclMembers ctx sd)"
  "frame (VisitVarDeclStmnt ctx st)"
  "frame (VisitVarDeclStmnts ctx sts)"
proof (induction ctx vt and ctx sd args and ctx sds and ctx sd b c and ctx sd and ctx st and ctx sts
    rule: VisitVarType_VisitStructDecl_WriteNestedStructDecls_WriteStructDecl_WriteStructDeclMembers_VisitVarDeclStmnt_VisitVarDeclStmnts.induct)
  case (7 ctx inp outp classes modifiers inputMod vt decls)
  show ?case
    unfolding VisitVarDeclStmnt.simps
    by (rule frame_state_dependent
          [where f = "\<lambda>s. (let varDecls =
           filter (\<lambda>v. \<not> (disableCodeGen v \<or>
                           (isInsideInterfaceBlock s \<and> IsSystemValue (semantic v)))) decls
         in if varDecls = [] then skip
            else
              seq [BeginLn,
                   if inp then Write ''in '' else if outp then Write ''out '' else skip,
                   WriteStorageClasses ctx classes,
                   WriteTypeModifiers modifiers,
                   if structDecl vt \<noteq> None then seq [VisitVarType ctx vt, BeginLn]
                   else seq [VisitVarType ctx vt, Write '' ''],
                   VisitVarDecls ctx varDecls,
                   Write '';'',
                   EndLn])"])
       (use 7 in \<open>auto simp del: decl_simps simp: Let_def\<close>)
qed ((subst decl_simps,
      (auto simp del: decl_simps simp: Let_def frame_expr split: option.splits)[1])+)

lemma frame_with_entryPoint [intro!]:
  "(\<And>ep. entryPointRef (program ctx) = Some ep \<Longrightarrow> frame (f ep)) \<Longrightarrow> frame (with_entryPoint ctx f)"
  by (auto simp: with_entryPoint_def split: option.splits)

lemma frame_WriteOutputSemanticsAssignment [simp, intro!]:
  "frame (WriteOutputSemanticsAssignment ctx e)"
  unfolding WriteOutputSemanticsAssignment_def WriteOutputSemanticsAssignmentVarDecl_def
  by (auto simp: frame_expr split: option.splits)

lemma frame_WriteLocalInputSemantics [simp, intro!]: "frame (WriteLocalInputSemantics ctx)"
  unfolding WriteLocalInputSemantics_def WriteLocalInputSemanticsVarDecl_def
  by (auto simp: frame_decl split: option.splits)

lemma frame_WriteLocalOutputSemantics [simp, intro!]: "frame (WriteLocalOutputSemantics ctx)"
  unfolding WriteLocalOutputSemantics_def WriteLocalOutputSemanticsVarDecl_def
  by (auto simp: frame_decl split: option.splits)

lemma frame_WriteGlobalInputSemantics [simp, intro!]: "frame (WriteGlobalInputSemantics ctx)"
  unfolding WriteGlobalInputSemantics_def WriteGlobalInputSemanticsVarDecl_def
  by (auto simp: frame_decl split: option.splits)

lemma frame_WriteGlobalOutputSemantics [simp, intro!]: "frame (WriteGlobalOutputSemantics ctx)"
  unfolding WriteGlobalOutputSemantics_def WriteGlobalOutputSemanticsVarDecl_def
  by (auto simp: frame_decl split: option.splits)

lemma frame_WriteAttribute [simp, intro!]: "frame (WriteAttribute ctx a)"
  unfolding WriteAttribute_def WriteAttributeNumThreads_def WriteAttributeEarlyDepthStencil_def
  by (auto simp: frame_expr)

lemma frame_WriteParameter [simp, intro!]: "frame (WriteParameter ctx p)"
  unfolding WriteParameter_def
  by (auto simp: frame_decl split: list.splits)

lemma frame_WriteParameters [simp, intro!]: "frame (WriteParameters ctx ps)"
  by (induction ctx ps rule: WriteParameters.induct) auto

lemma frame_VisitBufferDeclStmnt [simp, intro!]: "frame (VisitBufferDeclStmnt ctx b)"
  unfolding VisitBufferDeclStmnt_def
  by (auto simp: frame_decl split: option.splits)

lemma frame_WriteTextureDecl [simp, intro!]: "frame (WriteTextureDecl ctx k t)"
  unfolding WriteTextureDecl_def
  by (auto simp: Let_def split: option.splits)

lemma frame_VisitTextureDeclStmnt [simp, intro!]: "frame (VisitTextureDeclStmnt ctx t)"
  unfolding VisitTextureDeclStmnt_def
  by (auto simp: Let_def)

lemmas stmnt_simps =
  VisitStmnt.simps VisitStmnts.simps WriteScopedStmnt.simps VisitSwitchCase.simps
  VisitSwitchCases.simps

lemma frame_stmnt:
  "frame (VisitStmnt ctx args st)"
  "frame (VisitStmnts ctx sts)"
  "frame (WriteScopedStmnt ctx sto)"
  "frame (VisitSwitchCase ctx c)"
  "frame (VisitSwitchCases ctx cs)"
proof (induction ctx args st and ctx sts and ctx sto and ctx c and ctx cs
    rule: VisitStmnt_VisitStmnts_WriteScopedStmnt_VisitSwitchCase_VisitSwitchCases.induct)
  case (9 ctx args e isEndOfFunction)
  show ?case
    unfolding VisitStmnt.simps
    by (rule frame_state_dependent
          [where f = "\<lambda>s. (if isInsideEntryPoint s then
           seq [WriteOutputSemanticsAssignment ctx e,
                if \<not> isEndOfFunction then WriteLn ''return;'' else skip]
         else
           (case e of
              Some x \<Rightarrow> seq [BeginLn, Write ''return '', VisitExpr ctx x, Write '';'', EndLn]
            | None \<Rightarrow> if \<not> isEndOfFunction then WriteLn ''return;'' else skip))"])
       (auto simp: frame_expr split: option.splits)
qed ((subst stmnt_simps,
      (auto simp del: stmnt_simps simp: Let_def frame_expr frame_decl split: option.splits)[1])+)

lemma frame_WriteVersionAndExtensions [simp, intro!]: "frame (WriteVersionAndExtensions ctx p)"
  unfolding WriteVersionAndExtensions_def
  by (auto split: sum.splits)

lemma frame_WriteReferencedIntrinsics [simp, intro!]: "frame (WriteReferencedIntrinsics p)"
  unfolding WriteReferencedIntrinsics_def WriteClipIntrinsics_def
  by auto

lemma frame_VisitProgram [simp, intro!]: "frame (VisitProgram ctx p)"
  unfolding VisitProgram_def
  by (auto simp: frame_stmnt split: option.splits)

lemma frame_GenerateCodePrimary: "frame (GenerateCodePrimary g p i out t)"
  unfolding GenerateCodePrimary_def
  by (auto simp: Let_def)

section \<open>The intrinsic mul\<close>

text \<open>
  C1. A call of the intrinsic \<open>mul\<close> with exactly the two arguments \<open>A\<close> and \<open>B\<close>
  emits \<open>(A' * B')\<close>, where \<open>A'\<close> and \<open>B'\<close> are the emissions of \<open>A\<close> and \<open>B\<close>,
  each in one more pair of parentheses exactly if the argument is a ternary, binary,
  unary or post-unary expression; the call is emitted whenever both arguments are.
\<close>

theorem mul_intrinsic_emission:
  assumes "intrinsic call = Mul" and "arguments call = [A, B]"
  shows "(VisitFunctionCall ctx call s = Inr s' \<longrightarrow>
            (\<exists>a b. emission (VisitExpr ctx A) = Some a \<and> emission (VisitExpr ctx B) = Some b \<and>
               sink s' = sink s @ ''(''
                 @ parenthesized (is_TernaryExpr A \<or> is_BinaryExpr A \<or> is_UnaryExpr A
                     \<or> is_PostUnaryExpr A) a
                 @ '' * ''
                 @ parenthesized (is_TernaryExpr B \<or> is_BinaryExpr B \<or> is_UnaryExpr B
                     \<or> is_PostUnaryExpr B) b
                 @ '')''))
       \<and> (emission (VisitExpr ctx A) \<noteq> None \<longrightarrow> emission (VisitExpr ctx B) \<noteq> None \<longrightarrow>
            (\<exists>s''. VisitFunctionCall ctx call s = Inr s''))"
proof -
  obtain vi td where call: "call = FunctionCall vi td Mul [A, B]"
    using assms by (cases call) auto
  have A: "text_only (VisitExpr ctx A)" and B: "text_only (VisitExpr ctx B)"
    by (rule text_only_expr)+
  from A show ?thesis
  proof (cases rule: text_only_cases)
    case aborts
    then show ?thesis
      by (simp add: call seq.simps Write_def AssertIntrinsicNumArgs_def skip_def)
  next
    case textA: (writes a da)
    from B show ?thesis
    proof (cases rule: text_only_cases)
      case aborts
      with textA show ?thesis
        by (simp add: call seq.simps Write_def AssertIntrinsicNumArgs_def skip_def)
    next
      case (writes b db)
      with textA show ?thesis
        by (auto simp: call seq.simps Write_def AssertIntrinsicNumArgs_def skip_def
              parenthesized_def)
    qed
  qed
qed

theorem mul_intrinsic_emission_witness:
  "VisitFunctionCall example_generator
     (FunctionCall None None Mul [var ''M'', BinaryExpr (var ''p'') 0 (var ''v'')])
     initial_state = Inr (initial_state\<lparr>sink := ''(M * (p + v))''\<rparr>)
   \<and> emission (VisitExpr example_generator (var ''M'')) = Some ''M''
   \<and> emission (VisitExpr example_generator (BinaryExpr (var ''p'') 0 (var ''v''))) = Some ''p + v''"
proof -
  have run: "VisitFunctionCall example_generator
     (FunctionCall None None Mul [var ''M'', BinaryExpr (var ''p'') 0 (var ''v'')])
     initial_state = Inr (initial_state\<lparr>sink := ''(M * (p + v))''\<rparr>)"
    by (simp add: var_def seq.simps Write_def skip_def example_generator_def initial_state_def
          FinalIdentFromVarIdent_def AssertIntrinsicNumArgs_def)
  from mul_intrinsic_emission [of "FunctionCall None None Mul [var ''M'', BinaryExpr (var ''p'') 0 (var ''v'')]"
      "var ''M''" "BinaryExpr (var ''p'') 0 (var ''v'')" example_generator initial_state
      "initial_state\<lparr>sink := ''(M * (p + v))''\<rparr>"] run
  obtain a b where "emission (VisitExpr example_generator (var ''M'')) = Some a"
    and "emission (VisitExpr example_generator (BinaryExpr (var ''p'') 0 (var ''v''))) = Some b"
    and "''(M * (p + v))'' = ''('' @ parenthesized False a @ '' * '' @ parenthesized True b @ '')''"
    by (auto simp: initial_state_def var_def)
  moreover have "emission (VisitExpr example_generator (var ''M'')) = Some ''M''"
    and "emission (VisitExpr example_generator (BinaryExpr (var ''p'') 0 (var ''v''))) = Some ''p + v''"
    by (simp_all add: emission_def var_def seq.simps Write_def skip_def example_generator_def
          initial_state_def FinalIdentFromVarIdent_def)
  ultimately show ?thesis using run by simp
qed

section \<open>Return statements and functions with a path that does not return\<close>

lemma WriteLn_line_text: "WriteLn text s = Inr (s\<lparr>sink := sink s @ line_text s text\<rparr>)"
  by (simp add: WriteLn_def seq.simps BeginLn_def EndLn_def Write_def line_text_def
        CurrentOptions_def FullIndent_def)

lemma line_text_sink: "line_text (s\<lparr>sink := x\<rparr>) text = line_text s text"
  by (simp add: line_text_def CurrentOptions_def FullIndent_def)

lemma line_text_log: "line_text (s\<lparr>log := x\<rparr>) text = line_text s text"
  by (simp add: line_text_def CurrentOptions_def FullIndent_def)

lemma frame_result:
  assumes "frame m" and "m s = Inr s'"
  shows "\<exists>t d. sink s' = sink s @ t \<and> log s' = log s @ d"
proof -
  let ?s0 = "s\<lparr>sink := [], log := []\<rparr>"
  have s: "s = ?s0\<lparr>sink := sink s @ sink ?s0, log := log s @ log ?s0\<rparr>"
    by simp
  from assms(1) have "m (?s0\<lparr>sink := sink s @ sink ?s0, log := log s @ log ?s0\<rparr>) =
      (case m ?s0 of Inl a \<Rightarrow> Inl a
       | Inr s1 \<Rightarrow> Inr (s1\<lparr>sink := sink s @ sink s1, log := log s @ log s1\<rparr>))"
    unfolding frame_def by blast
  with s assms(2) show ?thesis
    by (auto split: sum.splits)
qed

lemma seq_Cons_result:
  assumes "seq (m # ms) s = Inr s'" and "\<And>m'. m' \<in> set ms \<Longrightarrow> frame m'"
  obtains s1 t d where "m s = Inr s1" and "sink s' = sink s1 @ t" and "log s' = log s1 @ d"
proof -
  from assms(1) obtain s1 where m: "m s = Inr s1" and ms: "seq ms s1 = Inr s'"
    by (auto simp: seq.simps split: sum.splits)
  from assms(2) have "frame (seq ms)"
    by (rule frame_seq)
  from frame_result [OF this ms] m that show thesis
    by blast
qed

text \<open>
  C10. Outside the entry point, a return statement without expression that is flagged
  as the end of the function writes nothing.
\<close>

theorem return_at_end_of_function_writes_nothing:
  "\<not> isInsideEntryPoint s \<Longrightarrow> VisitStmnt ctx args (ReturnStmnt None True) s = Inr s"
  by (simp add: skip_def)

theorem return_at_end_of_function_writes_nothing_witness:
  "\<not> isInsideEntryPoint initial_state
   \<and> VisitStmnt example_generator None (ReturnStmnt None True) initial_state = Inr initial_state"
  using return_at_end_of_function_writes_nothing [of initial_state example_generator None]
  by (simp add: initial_state_def)

text \<open>
  C4. A function declaration flagged has-non-return-control-path: if it is not reachable,
  visiting it submits a warning, writes nothing and does not abort; if it is reachable,
  visiting it reports an error, which is thrown where errors abort and is in the log of
  every state the visit returns where they do not.
\<close>

theorem function_with_non_return_control_path:
  assumes "hasNonReturnControlPath ast"
  shows "(\<not> fd_isReachable ast \<longrightarrow>
            VisitStmnt ctx args (FunctionDecl ast codeBlock) s =
              Inr (s\<lparr>log := log s @ [(SeverityWarning,
                ''not all control paths in unreferenced function '' @ [CHR 0x27] @ fd_ident ast
                  @ [CHR 0x27] @ '' return a value'')]\<rparr>))
       \<and> (fd_isReachable ast \<longrightarrow> errorAborts ctx \<longrightarrow>
            VisitStmnt ctx args (FunctionDecl ast codeBlock) s =
              Inl (Thrown (SeverityError,
                ''not all control paths in function '' @ [CHR 0x27] @ fd_ident ast
                  @ [CHR 0x27] @ '' return a value'')))
       \<and> (fd_isReachable ast \<longrightarrow> \<not> errorAborts ctx \<longrightarrow>
            (\<forall>s'. VisitStmnt ctx args (FunctionDecl ast codeBlock) s = Inr s' \<longrightarrow>
               (\<exists>d. log s' = log s @ (SeverityError,
                 ''not all control paths in function '' @ [CHR 0x27] @ fd_ident ast
                   @ [CHR 0x27] @ '' return a value'') # d)))"
proof (intro conjI impI allI)
  assume "\<not> fd_isReachable ast"
  with assms show "VisitStmnt ctx args (FunctionDecl ast codeBlock) s =
      Inr (s\<lparr>log := log s @ [(SeverityWarning,
        ''not all control paths in unreferenced function '' @ [CHR 0x27] @ fd_ident ast
          @ [CHR 0x27] @ '' return a value'')]\<rparr>)"
    by (simp add: Warning_def)
next
  assume "fd_isReachable ast" and "errorAborts ctx"
  with assms show "VisitStmnt ctx args (FunctionDecl ast codeBlock) s =
      Inl (Thrown (SeverityError,
        ''not all control paths in function '' @ [CHR 0x27] @ fd_ident ast
          @ [CHR 0x27] @ '' return a value''))"
    by (simp add: seq.simps Error_def)
next
  fix s'
  let ?msg = "''not all control paths in function '' @ [CHR 0x27] @ fd_ident ast
          @ [CHR 0x27] @ '' return a value''"
  assume reach: "fd_isReachable ast" and cont: "\<not> errorAborts ctx"
    and run: "VisitStmnt ctx args (FunctionDecl ast codeBlock) s = Inr s'"
  from run assms reach have "\<exists>s1 t d. Error ctx ?msg s = Inr s1 \<and> log s' = log s1 @ d"
    apply simp
    apply (erule seq_Cons_result)
     apply (auto simp: frame_stmnt frame_decl split: option.splits)
    done
  with cont show "\<exists>d. log s' = log s @ (SeverityError, ?msg) # d"
    by (auto simp: Error_def)
qed

theorem function_with_non_return_control_path_witness:
  "hasNonReturnControlPath (example_function False)
   \<and> VisitStmnt example_generator None (FunctionDecl (example_function False) None) initial_state =
       Inr (initial_state\<lparr>log := [(SeverityWarning,
         ''not all control paths in unreferenced function '' @ [CHR 0x27] @ ''f'' @ [CHR 0x27]
           @ '' return a value'')]\<rparr>)
   \<and> hasNonReturnControlPath (example_function True)
   \<and> VisitStmnt example_generator None (FunctionDecl (example_function True) None) initial_state =
       Inl (Thrown (SeverityError,
         ''not all control paths in function '' @ [CHR 0x27] @ ''f'' @ [CHR 0x27]
           @ '' return a value''))
   \<and> \<not> errorAborts (example_generator\<lparr>errorAborts := False\<rparr>)
   \<and> VisitStmnt (example_generator\<lparr>errorAborts := False\<rparr>) None
         (FunctionDecl (example_function True) None) initial_state =
       Inr (initial_state\<lparr>sink := ''#line 7'' @ [CHR 0x0A] @ ''float f();'' @ [CHR 0x0A, CHR 0x0A],
              log := [(SeverityError,
                ''not all control paths in function '' @ [CHR 0x27] @ ''f'' @ [CHR 0x27]
                  @ '' return a value'')]\<rparr>)"
proof -
  have run: "VisitStmnt (example_generator\<lparr>errorAborts := False\<rparr>) None
         (FunctionDecl (example_function True) None) initial_state =
       Inr (initial_state\<lparr>sink := ''#line 7'' @ [CHR 0x0A] @ ''float f();'' @ [CHR 0x0A, CHR 0x0A],
              log := [(SeverityError,
                ''not all control paths in function '' @ [CHR 0x27] @ ''f'' @ [CHR 0x27]
                  @ '' return a value'')]\<rparr>)"
    by (simp add: example_function_def initial_state_def example_generator_def seq.simps
          Error_def Line_def WriteLn_def Write_def BeginLn_def EndLn_def CurrentOptions_def
          FullIndent_def skip_def Blank_def to_string_def nat_to_string.simps
          WriteDataType_def GLSL400_def)
  have "\<not> errorAborts (example_generator\<lparr>errorAborts := False\<rparr>)"
    by simp
  with run function_with_non_return_control_path
          [of "example_function True" "example_generator\<lparr>errorAborts := False\<rparr>" None None
            initial_state]
  have "hasNonReturnControlPath (example_function True) \<longrightarrow>
      (\<exists>d. log (initial_state\<lparr>sink := ''#line 7'' @ [CHR 0x0A] @ ''float f();'' @ [CHR 0x0A, CHR 0x0A],
              log := [(SeverityError,
                ''not all control paths in function '' @ [CHR 0x27] @ ''f'' @ [CHR 0x27]
                  @ '' return a value'')]\<rparr>) =
         log initial_state @ (SeverityError,
           ''not all control paths in function '' @ [CHR 0x27] @ fd_ident (example_function True)
             @ [CHR 0x27] @ '' return a value'') # d)"
    by (simp add: example_function_def)
  with run function_with_non_return_control_path
          [of "example_function False" example_generator None None initial_state]
        function_with_non_return_control_path
          [of "example_function True" example_generator None None initial_state]
  show ?thesis
    by (simp add: example_function_def initial_state_def example_generator_def)
qed

lemma WriteOutputSemanticsAssignmentVarDecl_text:
  "WriteOutputSemanticsAssignmentVarDecl ctx varDecl s =
     Inr (s\<lparr>sink := sink s @ (case output_assignment ctx varDecl of
                                  Some line \<Rightarrow> line_text s line | None \<Rightarrow> [])\<rparr>)"
  by (simp add: WriteOutputSemanticsAssignmentVarDecl_def output_assignment_def seq.simps
        BeginLn_def EndLn_def Write_def skip_def line_text_def CurrentOptions_def FullIndent_def
        split: option.splits)

lemma WriteOutputSemanticsAssignmentVarDecls_text:
  "seq (map (WriteOutputSemanticsAssignmentVarDecl ctx) varDeclRefs) s =
     Inr (s\<lparr>sink := sink s @ output_assignments ctx s varDeclRefs\<rparr>)"
proof (induction varDeclRefs arbitrary: s)
  case Nil
  show ?case
    by (simp add: seq.simps output_assignments_def)
next
  case (Cons varDecl varDeclRefs)
  show ?case
    apply (simp only: list.map seq.simps(2) sum.case Cons.IH
        WriteOutputSemanticsAssignmentVarDecl_text [of ctx varDecl s])
    apply (simp add: output_assignments_def line_text_sink cong: option.case_cong)
    done
qed

text \<open>
  C8, as stated, fails. Where the entry point has system-value output variables, the
  assignments are written from these variables and the return expression does not occur
  in them; where it has none and its semantic is no system value, no assignment is written:
  the error \<open>missing output semantic\<close> is reported, and where errors abort, no
  \<open>return;\<close> line is written either.
\<close>

theorem return_assignment_without_expression:
  "isInsideEntryPoint example_entry_state
   \<and> VisitStmnt example_output_generator None (ReturnStmnt (Some (var ''p'')) False)
         example_entry_state =
       Inr (example_entry_state
              \<lparr>sink := ''    gl_Position = o;'' @ [CHR 0x0A] @ ''    return;'' @ [CHR 0x0A]\<rparr>)
   \<and> VisitStmnt example_user_generator None (ReturnStmnt (Some (var ''p'')) False)
         example_entry_state =
       Inl (Thrown (SeverityError, ''missing output semantic''))"
  by (simp add: example_output_generator_def example_user_generator_def
        example_output_entry_point_def example_output_variable_def example_generator_def example_program_def
        example_entry_state_def initial_state_def WriteOutputSemanticsAssignment_def
        WriteOutputSemanticsAssignmentVarDecl_def with_entryPoint_def seq.simps Write_def
        WriteLn_def BeginLn_def EndLn_def CurrentOptions_def FullIndent_def skip_def Error_def)

text \<open>
  C8, amended. A return statement visited inside the entry point, of a program whose
  entry point is set, first writes the output-semantic assignments and then the line
  \<open>return;\<close>, the latter exactly if the statement is not flagged as the end of the
  function (and no error has aborted before).
  The assignments are: where the entry point has system-value output variables, one line
  \<open>KEYWORD = IDENT;\<close> for each of them whose semantic is valid and has a GLSL keyword,
  in their order, without the return expression; where it has none, its semantic is a
  system value and the statement has an expression, the line \<open>KEYWORD = e';\<close> with the
  emission \<open>e'\<close> of the expression, or the error
  \<open>failed to map output semantic to GLSL keyword\<close> if the semantic has no keyword;
  otherwise none, and the error \<open>missing output semantic\<close> is reported unless the target
  is a compute shader.
\<close>

theorem return_inside_entry_point:
  assumes "isInsideEntryPoint s" and "entryPointRef (program ctx) = Some ep"
  shows "(outputSemantics_varDeclRefsSV ep \<noteq> [] \<longrightarrow>
            VisitStmnt ctx args (ReturnStmnt e isEndOfFunction) s =
              Inr (s\<lparr>sink := sink s
                     @ output_assignments ctx s (outputSemantics_varDeclRefsSV ep)
                     @ (if isEndOfFunction then [] else line_text s ''return;'')\<rparr>))
       \<and> (outputSemantics_varDeclRefsSV ep = [] \<longrightarrow>
            IsSystemValue (ep_semantic ep) \<longrightarrow> e = Some x \<longrightarrow>
            (\<forall>semanticKeyword.
               SemanticToGLSLKeyword ctx (ep_semantic ep) = Some semanticKeyword \<longrightarrow>
               (\<forall>s'. VisitStmnt ctx args (ReturnStmnt e isEndOfFunction) s = Inr s' \<longrightarrow>
                  (\<exists>x'. emission (VisitExpr ctx x) = Some x' \<and>
                     sink s' = sink s @ line_text s (semanticKeyword @ '' = '' @ x' @ '';'')
                       @ (if isEndOfFunction then [] else line_text s ''return;'')))
               \<and> (emission (VisitExpr ctx x) \<noteq> None \<longrightarrow>
                    (\<exists>s'. VisitStmnt ctx args (ReturnStmnt e isEndOfFunction) s = Inr s')))
            \<and> (SemanticToGLSLKeyword ctx (ep_semantic ep) = None \<longrightarrow>
                 VisitStmnt ctx args (ReturnStmnt e isEndOfFunction) s =
                   (if errorAborts ctx then
                      Inl (Thrown (SeverityError,
                        ''failed to map output semantic to GLSL keyword''))
                    else
                      Inr (s\<lparr>sink := sink s
                             @ (if isEndOfFunction then [] else line_text s ''return;''),
                           log := log s @ [(SeverityError,
                             ''failed to map output semantic to GLSL keyword'')]\<rparr>))))
       \<and> (outputSemantics_varDeclRefsSV ep = [] \<longrightarrow>
            \<not> (IsSystemValue (ep_semantic ep) \<and> e \<noteq> None) \<longrightarrow>
            VisitStmnt ctx args (ReturnStmnt e isEndOfFunction) s =
              (if shaderTarget ctx = ComputeShader then
                 Inr (s\<lparr>sink := sink s
                        @ (if isEndOfFunction then [] else line_text s ''return;'')\<rparr>)
               else if errorAborts ctx then
                 Inl (Thrown (SeverityError, ''missing output semantic''))
               else
                 Inr (s\<lparr>sink := sink s
                        @ (if isEndOfFunction then [] else line_text s ''return;''),
                      log := log s @ [(SeverityError, ''missing output semantic'')]\<rparr>)))"
proof -
  have visit: "VisitStmnt ctx args (ReturnStmnt e isEndOfFunction) s =
      (case WriteOutputSemanticsAssignment ctx e s of
         Inl a \<Rightarrow> Inl a
       | Inr s1 \<Rightarrow>
           if isEndOfFunction then Inr s1
           else Inr (s1\<lparr>sink := sink s1 @ line_text s1 ''return;''\<rparr>))"
    using assms(1) by (simp add: seq.simps skip_def WriteLn_line_text split: sum.splits)
  have "text_only (VisitExpr ctx x)"
    by (rule text_only_expr)
  then show ?thesis
  proof (cases rule: text_only_cases)
    case aborts
    then show ?thesis
      unfolding visit
      by (auto simp: WriteOutputSemanticsAssignment_def with_entryPoint_def assms(2)
            WriteOutputSemanticsAssignmentVarDecls_text line_text_sink line_text_log
            seq.simps BeginLn_def EndLn_def Write_def skip_def Error_def)
  next
    case (writes t d)
    then show ?thesis
      unfolding visit
      by (auto simp: WriteOutputSemanticsAssignment_def with_entryPoint_def assms(2)
            WriteOutputSemanticsAssignmentVarDecls_text line_text_sink line_text_log
            seq.simps BeginLn_def EndLn_def Write_def skip_def Error_def
            line_text_def CurrentOptions_def FullIndent_def)
  qed
qed

theorem return_inside_entry_point_witness:
  "isInsideEntryPoint example_entry_state
   \<and> entryPointRef (program example_output_generator) = Some example_output_entry_point
   \<and> outputSemantics_varDeclRefsSV example_output_entry_point \<noteq> []
   \<and> VisitStmnt example_output_generator None (ReturnStmnt (Some (var ''p'')) False)
         example_entry_state =
       Inr (example_entry_state\<lparr>sink := sink example_entry_state
              @ output_assignments example_output_generator example_entry_state
                  (outputSemantics_varDeclRefsSV example_output_entry_point)
              @ (if False then [] else line_text example_entry_state ''return;'')\<rparr>)
   \<and> output_assignments example_output_generator example_entry_state
         (outputSemantics_varDeclRefsSV example_output_entry_point) =
       ''    gl_Position = o;'' @ [CHR 0x0A]
   \<and> line_text example_entry_state ''return;'' = ''    return;'' @ [CHR 0x0A]
   \<and> VisitStmnt example_generator None (ReturnStmnt (Some (var ''p'')) True)
         example_entry_state =
       Inr (example_entry_state\<lparr>sink := ''    gl_Position = p;'' @ [CHR 0x0A]\<rparr>)
   \<and> emission (VisitExpr example_generator (var ''p'')) = Some ''p''"
proof -
  have inside: "isInsideEntryPoint example_entry_state"
    by (simp add: example_entry_state_def)
  have ep: "entryPointRef (program example_output_generator) = Some example_output_entry_point"
    by (simp add: example_output_generator_def)
  have sv: "outputSemantics_varDeclRefsSV example_output_entry_point \<noteq> []"
    by (simp add: example_output_entry_point_def)
  have assignments: "output_assignments example_output_generator example_entry_state
         (outputSemantics_varDeclRefsSV example_output_entry_point) =
       ''    gl_Position = o;'' @ [CHR 0x0A]"
    by (simp add: output_assignments_def output_assignment_def example_output_entry_point_def
          example_output_variable_def example_output_generator_def example_generator_def
          line_text_def CurrentOptions_def FullIndent_def example_entry_state_def
          initial_state_def)
  have line: "line_text example_entry_state ''return;'' = ''    return;'' @ [CHR 0x0A]"
    by (simp add: line_text_def CurrentOptions_def FullIndent_def example_entry_state_def
          initial_state_def)
  have run: "VisitStmnt example_generator None (ReturnStmnt (Some (var ''p'')) True)
         example_entry_state =
       Inr (example_entry_state\<lparr>sink := ''    gl_Position = p;'' @ [CHR 0x0A]\<rparr>)"
    by (simp add: WriteOutputSemanticsAssignment_def with_entryPoint_def example_generator_def
          example_program_def example_entry_state_def initial_state_def seq.simps Write_def
          BeginLn_def EndLn_def CurrentOptions_def FullIndent_def var_def
          FinalIdentFromVarIdent_def skip_def)
  have "entryPointRef (program example_generator) = Some (the (entryPointRef example_program))"
    and "outputSemantics_varDeclRefsSV (the (entryPointRef example_program)) = []"
    and "IsSystemValue (ep_semantic (the (entryPointRef example_program)))"
    and "SemanticToGLSLKeyword example_generator
      (ep_semantic (the (entryPointRef example_program))) = Some ''gl_Position''"
    by (simp_all add: example_generator_def example_program_def)
  with return_inside_entry_point [OF inside, of example_generator
      "the (entryPointRef example_program)" None "Some (var ''p'')" True "var ''p''"] run
  have "\<exists>x'. emission (VisitExpr example_generator (var ''p'')) = Some x' \<and>
      sink (example_entry_state\<lparr>sink := ''    gl_Position = p;'' @ [CHR 0x0A]\<rparr>) =
        sink example_entry_state
          @ line_text example_entry_state (''gl_Position'' @ '' = '' @ x' @ '';'')
          @ (if True then [] else line_text example_entry_state ''return;'')"
    by blast
  then have "emission (VisitExpr example_generator (var ''p'')) = Some ''p''"
    by (auto simp: line_text_def CurrentOptions_def FullIndent_def example_entry_state_def
          initial_state_def)
  with return_inside_entry_point [OF inside ep, of None "Some (var ''p'')" False] sv
    inside ep assignments line run
  show ?thesis
    by blast
qed

section \<open>Texture declarations and the statistics\<close>

lemma WriteTextureDecl_textures:
  assumes "WriteTextureDecl ctx samplerType texDecl s = Inr s'"
  shows "textures s' =
    textures s @ (if td_isReachable texDecl \<and> stats ctx then [(td_ident texDecl, - 1)] else [])"
  using assms
  by (auto simp: WriteTextureDecl_def seq.simps BeginLn_def EndLn_def Write_def skip_def
        push_back_texture_def undefined_behaviour_def
      split: option.splits if_splits)

lemma seq_map_textures:
  assumes "\<And>x u u'. f x u = Inr u' \<Longrightarrow> textures u' = textures u @ g x"
    and "seq (map f xs) s = Inr s'"
  shows "textures s' = textures s @ concat (map g xs)"
  using assms(2)
proof (induction xs arbitrary: s)
  case Nil
  then show ?case by (simp add: seq.simps)
next
  case (Cons x xs)
  from Cons.prems obtain s1 where x: "f x s = Inr s1" and xs: "seq (map f xs) s1 = Inr s'"
    by (auto simp: seq.simps split: sum.splits)
  from assms(1) [OF x] Cons.IH [OF xs] show ?case by simp
qed

lemma concat_reachable_textures:
  "concat (map (\<lambda>t. if td_isReachable t then [(td_ident t, - 1 :: int)] else []) ts) =
     map (\<lambda>t. (td_ident t, - 1)) (filter td_isReachable ts)"
  by (induction ts) auto

text \<open>
  C9. The texture records that visiting a reachable texture declaration statement adds to
  the statistics output are the pairs of the identifier of each reachable texture
  declaration and the binding -1; this is so also for a declaration with a slot register
  for the target, whose slot is written in the \<open>layout(binding = N)\<close> qualifier.
\<close>

theorem texture_statistics_binding:
  assumes "stats ctx" and "tds_isReachable ast" and "VisitTextureDeclStmnt ctx ast s = Inr s'"
  shows "textures s' =
           textures s @ map (\<lambda>texDecl. (td_ident texDecl, - 1))
             (filter td_isReachable (textureDecls ast))
       \<and> (\<forall>texDecl slotRegister keyword u.
             td_isReachable texDecl \<longrightarrow>
             GetForTarget ctx (td_slotRegisters texDecl) (shaderTarget ctx) = Some slotRegister \<longrightarrow>
             WriteTextureDecl ctx (Some keyword) texDecl u =
               Inr (u\<lparr>sink := sink u @ line_text u (''layout(binding = ''
                        @ to_string (slot slotRegister) @ '') uniform '' @ keyword @ '' ''
                        @ td_ident texDecl @ '';''),
                      textures := textures u @ [(td_ident texDecl, - 1)]\<rparr>))"
proof (intro conjI allI impI)
  let ?decls = "seq (map (WriteTextureDecl ctx (BufferTypeToGLSLKeyword ctx (textureType ast)))
                  (textureDecls ast))"
  let ?check = "if BufferTypeToGLSLKeyword ctx (textureType ast) = None
      then Error ctx ''failed to map texture type to GLSL sampler type'' else skip"
  from assms(2,3) obtain s1 s2 where
    check: "?check s = Inr s1" and decls: "?decls s1 = Inr s2" and s2: "Blank s2 = Inr s'"
    by (auto simp: VisitTextureDeclStmnt_def Let_def seq.simps split: sum.splits)
  from check have s1: "textures s1 = textures s"
    by (auto simp: Error_def skip_def split: if_splits)
  from s2 have "textures s' = textures s2"
    by (auto simp: Blank_def WriteLn_line_text)
  moreover from seq_map_textures [where f = "WriteTextureDecl ctx (BufferTypeToGLSLKeyword ctx (textureType ast))"
      and g = "\<lambda>t. if td_isReachable t \<and> stats ctx then [(td_ident t, - 1)] else []",
      OF WriteTextureDecl_textures decls]
  have "textures s2 = textures s1 @ concat (map (\<lambda>t. if td_isReachable t \<and> stats ctx
          then [(td_ident t, - 1)] else []) (textureDecls ast))" .
  ultimately show "textures s' = textures s @ map (\<lambda>texDecl. (td_ident texDecl, - 1))
             (filter td_isReachable (textureDecls ast))"
    using assms(1) s1 by (simp add: concat_reachable_textures)
next
  fix texDecl :: TextureDecl and slotRegister :: Register and keyword :: string and u :: gen_state
  assume "td_isReachable texDecl"
    and "GetForTarget ctx (td_slotRegisters texDecl) (shaderTarget ctx) = Some slotRegister"
  with assms(1) show "WriteTextureDecl ctx (Some keyword) texDecl u =
      Inr (u\<lparr>sink := sink u @ line_text u (''layout(binding = ''
              @ to_string (slot slotRegister) @ '') uniform '' @ keyword @ '' ''
              @ td_ident texDecl @ '';''),
            textures := textures u @ [(td_ident texDecl, - 1)]\<rparr>)"
    by (simp add: WriteTextureDecl_def seq.simps BeginLn_def EndLn_def Write_def
          push_back_texture_def line_text_def CurrentOptions_def FullIndent_def)
qed

theorem texture_statistics_binding_witness:
  "stats example_generator \<and> tds_isReachable example_texture
   \<and> VisitTextureDeclStmnt example_generator example_texture initial_state =
       Inr (initial_state\<lparr>sink := ''layout(binding = 3) uniform sampler2D tex;'' @ [CHR 0x0A, CHR 0x0A],
              textures := [(''tex'', - 1)]\<rparr>)
   \<and> textures (initial_state\<lparr>sink := ''layout(binding = 3) uniform sampler2D tex;'' @ [CHR 0x0A, CHR 0x0A],
              textures := [(''tex'', - 1)]\<rparr>) =
       textures initial_state @ map (\<lambda>texDecl. (td_ident texDecl, - 1))
         (filter td_isReachable (textureDecls example_texture))"
proof -
  have run: "VisitTextureDeclStmnt example_generator example_texture initial_state =
       Inr (initial_state\<lparr>sink := ''layout(binding = 3) uniform sampler2D tex;'' @ [CHR 0x0A, CHR 0x0A],
              textures := [(''tex'', - 1)]\<rparr>)"
    by (simp add: VisitTextureDeclStmnt_def WriteTextureDecl_def example_texture_def
          example_generator_def initial_state_def seq.simps Write_def BeginLn_def EndLn_def
          CurrentOptions_def FullIndent_def skip_def push_back_texture_def Blank_def WriteLn_def
          to_string_def nat_to_string.simps)
  have "stats example_generator" and "tds_isReachable example_texture"
    by (simp_all add: example_generator_def example_texture_def)
  from texture_statistics_binding [OF this run] this run show ?thesis
    by blast
qed

section \<open>The intrinsic rcp and register names\<close>

text \<open>
  C6, as stated, fails: for an argument of a base type whose data type has no GLSL
  keyword, the call reports \<open>failed to map data type to GLSL keyword\<close>; where errors
  do not abort, it then writes \<open>((1) / (p))\<close>, with no type in front of \<open>(1)\<close>.
\<close>

theorem rcp_of_type_without_keyword:
  "IsBase (Get (GetTypeDenoter (example_generator\<lparr>GetTypeDenoter := \<lambda>e. BaseTypeDenoter 7\<rparr>)
      (var ''p'')))
   \<and> VisitFunctionCall (example_generator\<lparr>GetTypeDenoter := \<lambda>e. BaseTypeDenoter 7\<rparr>)
       (FunctionCall None None Rcp [var ''p'']) initial_state =
     Inl (Thrown (SeverityError, ''failed to map data type to GLSL keyword''))
   \<and> VisitFunctionCall
       (example_generator\<lparr>errorAborts := False, GetTypeDenoter := \<lambda>e. BaseTypeDenoter 7\<rparr>)
       (FunctionCall None None Rcp [var ''p'']) initial_state =
     Inr (initial_state\<lparr>sink := ''((1) / (p))'',
            log := [(SeverityError, ''failed to map data type to GLSL keyword'')]\<rparr>)"
  by (simp add: var_def seq.simps Write_def skip_def example_generator_def initial_state_def
        FinalIdentFromVarIdent_def AssertIntrinsicNumArgs_def WriteDataType_def GLSL400_def
        Error_def)

text \<open>
  C6, amended. A call of the intrinsic \<open>rcp\<close> with the one argument \<open>x\<close>, where \<open>D\<close>
  is the data type of \<open>x\<close>, replaced by its float type if the target is below GLSL 4.00.
  If the type denoter of \<open>x\<close> is a base type and \<open>D\<close> has the GLSL keyword \<open>TYPE\<close>, the
  call emits \<open>(TYPE(1) / (x'))\<close> with the emission \<open>x'\<close> of \<open>x\<close>, and it is emitted
  whenever \<open>x\<close> is. If it is a base type and \<open>D\<close> has no keyword, the error
  \<open>failed to map data type to GLSL keyword\<close> is reported: it is thrown where errors
  abort, and where they do not, the log holds it and the text is \<open>((1) / (x'))\<close>. If the
  type denoter is not a base type, the error \<open>invalid argument type for intrinsic 'rcp'\<close>
  is reported and no text is written.
\<close>

theorem rcp_intrinsic_emission:
  assumes "intrinsic call = Rcp" and "arguments call = [x]"
  shows "(\<forall>dataType keyword.
            Get (GetTypeDenoter ctx x) = BaseTypeDenoter dataType \<longrightarrow>
            DataTypeToGLSLKeyword ctx
              (if versionOut ctx < GLSL400 then DoubleToFloatDataType ctx dataType else dataType)
              = Some keyword \<longrightarrow>
            (\<forall>s'. VisitFunctionCall ctx call s = Inr s' \<longrightarrow>
               (\<exists>x'. emission (VisitExpr ctx x) = Some x' \<and>
                  sink s' = sink s @ ''('' @ keyword @ ''(1) / ('' @ x' @ ''))''))
            \<and> (emission (VisitExpr ctx x) \<noteq> None \<longrightarrow>
                 (\<exists>s'. VisitFunctionCall ctx call s = Inr s')))
       \<and> (\<forall>dataType.
            Get (GetTypeDenoter ctx x) = BaseTypeDenoter dataType \<longrightarrow>
            DataTypeToGLSLKeyword ctx
              (if versionOut ctx < GLSL400 then DoubleToFloatDataType ctx dataType else dataType)
              = None \<longrightarrow>
            (errorAborts ctx \<longrightarrow>
               VisitFunctionCall ctx call s =
                 Inl (Thrown (SeverityError, ''failed to map data type to GLSL keyword'')))
            \<and> (\<not> errorAborts ctx \<longrightarrow>
                 (\<forall>s'. VisitFunctionCall ctx call s = Inr s' \<longrightarrow>
                    (\<exists>x' d. emission (VisitExpr ctx x) = Some x' \<and>
                       sink s' = sink s @ ''((1) / ('' @ x' @ ''))'' \<and>
                       log s' = log s
                         @ (SeverityError, ''failed to map data type to GLSL keyword'') # d))))
       \<and> (\<not> IsBase (Get (GetTypeDenoter ctx x)) \<longrightarrow>
            VisitFunctionCall ctx call s =
              (if errorAborts ctx
               then Inl (Thrown (SeverityError,
                 ''invalid argument type for intrinsic '' @ [CHR 0x27] @ ''rcp'' @ [CHR 0x27]))
               else Inr (s\<lparr>log := log s @ [(SeverityError,
                 ''invalid argument type for intrinsic '' @ [CHR 0x27] @ ''rcp'' @ [CHR 0x27])]\<rparr>)))"
proof -
  obtain vi td where call: "call = FunctionCall vi td Rcp [x]"
    using assms by (cases call) auto
  have "text_only (VisitExpr ctx x)"
    by (rule text_only_expr)
  then show ?thesis
  proof (cases rule: text_only_cases)
    case aborts
    then show ?thesis
      by (auto simp: call seq.simps Write_def AssertIntrinsicNumArgs_def skip_def Let_def
            WriteDataType_def Error_def)
  next
    case (writes t d)
    then show ?thesis
      by (auto simp: call seq.simps Write_def AssertIntrinsicNumArgs_def skip_def Let_def
            WriteDataType_def Error_def)
  qed
qed

theorem rcp_intrinsic_emission_witness:
  "VisitFunctionCall example_generator (FunctionCall None None Rcp [var ''p'']) initial_state =
     Inr (initial_state\<lparr>sink := ''(vec4(1) / (p))''\<rparr>)
   \<and> emission (VisitExpr example_generator (var ''p'')) = Some ''p''
   \<and> VisitFunctionCall (example_generator\<lparr>GetTypeDenoter := \<lambda>e. StructTypeDenoter ''S''\<rparr>)
       (FunctionCall None None Rcp [var ''p'']) initial_state =
     Inl (Thrown (SeverityError,
       ''invalid argument type for intrinsic '' @ [CHR 0x27] @ ''rcp'' @ [CHR 0x27]))
   \<and> VisitFunctionCall (example_generator\<lparr>GetTypeDenoter := \<lambda>e. BaseTypeDenoter 7\<rparr>)
       (FunctionCall None None Rcp [var ''p'']) initial_state =
     Inl (Thrown (SeverityError, ''failed to map data type to GLSL keyword''))"
proof -
  have run: "VisitFunctionCall example_generator (FunctionCall None None Rcp [var ''p''])
      initial_state = Inr (initial_state\<lparr>sink := ''(vec4(1) / (p))''\<rparr>)"
    by (simp add: var_def seq.simps Write_def skip_def example_generator_def initial_state_def
          FinalIdentFromVarIdent_def AssertIntrinsicNumArgs_def WriteDataType_def GLSL400_def)
  have ty: "Get (GetTypeDenoter example_generator (var ''p'')) = BaseTypeDenoter 1"
    and kw: "DataTypeToGLSLKeyword example_generator
      (if versionOut example_generator < GLSL400
       then DoubleToFloatDataType example_generator 1 else 1) = Some ''vec4''"
    by (simp_all add: example_generator_def)
  have a1: "intrinsic (FunctionCall None None Rcp [var ''p'']) = Rcp"
    and a2: "arguments (FunctionCall None None Rcp [var ''p'']) = [var ''p'']"
    by simp_all
  from rcp_intrinsic_emission [OF a1 a2, where ctx = example_generator and s = initial_state]
    ty kw run
  have "\<exists>x'. emission (VisitExpr example_generator (var ''p'')) = Some x' \<and>
      sink (initial_state\<lparr>sink := ''(vec4(1) / (p))''\<rparr>) =
        sink initial_state @ ''('' @ ''vec4'' @ ''(1) / ('' @ x' @ ''))''"
    by blast
  then have "emission (VisitExpr example_generator (var ''p'')) = Some ''p''"
    by (auto simp: initial_state_def)
  moreover
  have "\<not> IsBase (Get (GetTypeDenoter
      (example_generator\<lparr>GetTypeDenoter := \<lambda>e. StructTypeDenoter ''S''\<rparr>) (var ''p'')))"
    and "errorAborts (example_generator\<lparr>GetTypeDenoter := \<lambda>e. StructTypeDenoter ''S''\<rparr>)"
    by (simp_all add: example_generator_def)
  with rcp_intrinsic_emission [OF a1 a2,
      where ctx = "example_generator\<lparr>GetTypeDenoter := \<lambda>e. StructTypeDenoter ''S''\<rparr>"
        and s = initial_state]
  have "VisitFunctionCall (example_generator\<lparr>GetTypeDenoter := \<lambda>e. StructTypeDenoter ''S''\<rparr>)
       (FunctionCall None None Rcp [var ''p'']) initial_state =
     Inl (Thrown (SeverityError,
       ''invalid argument type for intrinsic '' @ [CHR 0x27] @ ''rcp'' @ [CHR 0x27]))"
    by simp
  moreover
  have "Get (GetTypeDenoter (example_generator\<lparr>GetTypeDenoter := \<lambda>e. BaseTypeDenoter 7\<rparr>)
      (var ''p'')) = BaseTypeDenoter 7"
    and "DataTypeToGLSLKeyword (example_generator\<lparr>GetTypeDenoter := \<lambda>e. BaseTypeDenoter 7\<rparr>)
      (if versionOut (example_generator\<lparr>GetTypeDenoter := \<lambda>e. BaseTypeDenoter 7\<rparr>) < GLSL400
       then DoubleToFloatDataType
         (example_generator\<lparr>GetTypeDenoter := \<lambda>e. BaseTypeDenoter 7\<rparr>) 7 else 7) = None"
    and "errorAborts (example_generator\<lparr>GetTypeDenoter := \<lambda>e. BaseTypeDenoter 7\<rparr>)"
    by (simp_all add: example_generator_def)
  with rcp_intrinsic_emission [OF a1 a2,
      where ctx = "example_generator\<lparr>GetTypeDenoter := \<lambda>e. BaseTypeDenoter 7\<rparr>"
        and s = initial_state]
  have "VisitFunctionCall (example_generator\<lparr>GetTypeDenoter := \<lambda>e. BaseTypeDenoter 7\<rparr>)
       (FunctionCall None None Rcp [var ''p'']) initial_state =
     Inl (Thrown (SeverityError, ''failed to map data type to GLSL keyword''))"
    by blast
  ultimately show ?thesis using run by simp
qed

text \<open>
  C5, as stated, fails for the empty register name: it has no first character, and the
  character in the diagnostic is the null character that ends the string.
\<close>

theorem register_prefix_of_empty_name:
  "ValidateRegisterPrefix example_generator [] (CHR ''t'') initial_state =
     Inl (Thrown (SeverityError,
       ''invalid register prefix '' @ [CHR 0x27, CHR 0x00, CHR 0x27] @ '' (expected ''
         @ [CHR 0x27, CHR ''t'', CHR 0x27] @ '')''))
   \<and> length ([] :: string) = 0 \<and> string_at [] 0 = Some (CHR 0x00)"
  by (simp add: ValidateRegisterPrefix_def string_at_def Error_def example_generator_def)

text \<open>
  C5, amended. For every register name that does not begin with the expected character
  \<open>K\<close>, the empty name included, the validation reports the diagnostic
  \<open>invalid register prefix 'X' (expected 'K')\<close>, where \<open>X\<close> is the first character of a
  name that is not empty and the null character for the empty name; a name that begins
  with \<open>K\<close> is accepted without a diagnostic. The validation reads the name at position
  0 only, which is never beyond the null character that ends the string, and its
  behaviour is never undefined.
\<close>

theorem register_prefix_validation:
  "(registerName = [] \<or> hd registerName \<noteq> prefix \<longrightarrow>
      ValidateRegisterPrefix ctx registerName prefix s =
        Error ctx (''invalid register prefix ''
          @ [CHR 0x27, if registerName = [] then CHR 0x00 else hd registerName, CHR 0x27]
          @ '' (expected '' @ [CHR 0x27, prefix, CHR 0x27] @ '')'') s)
   \<and> (registerName \<noteq> [] \<longrightarrow> hd registerName = prefix \<longrightarrow>
        ValidateRegisterPrefix ctx registerName prefix s = Inr s)
   \<and> string_at registerName 0 \<noteq> None
   \<and> ValidateRegisterPrefix ctx registerName prefix s \<noteq> Inl UndefinedBehaviour"
  by (cases registerName)
    (auto simp: ValidateRegisterPrefix_def string_at_def Error_def skip_def)

theorem register_prefix_validation_witness:
  "ValidateRegisterPrefix example_generator ''u0'' (CHR ''t'') initial_state =
     Inl (Thrown (SeverityError,
       ''invalid register prefix '' @ [CHR 0x27] @ ''u'' @ [CHR 0x27] @ '' (expected ''
         @ [CHR 0x27] @ ''t'' @ [CHR 0x27] @ '')''))
   \<and> ValidateRegisterPrefix example_generator ''t0'' (CHR ''t'') initial_state =
       Inr initial_state"
  using register_prefix_validation [of "''u0''" "CHR ''t''" example_generator initial_state]
    register_prefix_validation [of "''t0''" "CHR ''t''" example_generator initial_state]
  by (simp add: Error_def example_generator_def)

section \<open>The header of the output\<close>

lemma frame_sink:
  assumes "frame m"
  shows "m (s\<lparr>sink := p @ sink s\<rparr>) =
    (case m s of Inl a \<Rightarrow> Inl a | Inr s' \<Rightarrow> Inr (s'\<lparr>sink := p @ sink s'\<rparr>))"
proof -
  from assms have "m (s\<lparr>sink := p @ sink s, log := [] @ log s\<rparr>) =
      (case m s of Inl a \<Rightarrow> Inl a | Inr s' \<Rightarrow> Inr (s'\<lparr>sink := p @ sink s', log := [] @ log s'\<rparr>))"
    unfolding frame_def by blast
  then show ?thesis by (simp split: sum.splits)
qed

lemma frame_from_empty:
  assumes "frame m"
  shows "m s = (case m (s\<lparr>sink := []\<rparr>) of Inl a \<Rightarrow> Inl a
                | Inr s' \<Rightarrow> Inr (s'\<lparr>sink := sink s @ sink s'\<rparr>))"
  using frame_sink [OF assms, where s = "s\<lparr>sink := []\<rparr>" and p = "sink s"] by simp

lemma seq_single: "seq [m] s = m s"
  by (cases "m s") (simp_all add: seq.simps)

lemma seq_WriteLn: "seq (WriteLn text # ms) s = seq ms (s\<lparr>sink := sink s @ line_text s text\<rparr>)"
  by (simp add: seq.simps WriteLn_line_text)

declare line_text_sink [simp] line_text_log [simp]

lemma GenerateCodePrimary_header:
  assumes "entryPointRef prog \<noteq> None"
  shows "GenerateCodePrimary gen prog inputDesc outputDesc timePoint s =
    VisitProgram (stored_context gen prog inputDesc outputDesc)
      (program (stored_context gen prog inputDesc outputDesc))
      (s\<lparr>sink := sink s @ line_text s (''// '' @ header_target gen inputDesc)
          @ line_text s ''// Generated by XShaderCompiler''
          @ line_text s (''// '' @ timePoint) @ line_text s []\<rparr>)"
  using assms
  by (simp add: GenerateCodePrimary_def Let_def Comment_def Blank_def seq_WriteLn seq_single
        stored_context_def header_target_def)

lemma split_lines_append:
  "CHR 0x0A \<notin> set a \<Longrightarrow> split_lines line (a @ CHR 0x0A # b) = (line @ a) # split_lines [] b"
  by (induction a arbitrary: line) auto

lemma lines_of_line: "CHR 0x0A \<notin> set a \<Longrightarrow> lines_of (a @ CHR 0x0A # b) = a # lines_of b"
  by (simp add: lines_of_def split_lines_append)

lemma nat_to_string_digits: "set (nat_to_string n) \<subseteq> set ''0123456789''"
proof (induction n rule: nat_to_string.induct)
  case (1 n)
  have digit: "''0123456789'' ! k \<in> set ''0123456789''" if "k < 10" for k
    using that nth_mem [of k "''0123456789''"] by simp
  show ?case
  proof (cases "n < 10")
    case True
    with digit [of n] show ?thesis
      by (subst nat_to_string.simps) simp
  next
    case False
    with 1 digit [of "n mod 10"] show ?thesis
      by (subst nat_to_string.simps) auto
  qed
qed

lemma to_string_no_newline: "CHR 0x0A \<notin> set (to_string i)"
  using nat_to_string_digits [of "nat i"] nat_to_string_digits [of "nat (- i)"]
  by (auto simp: to_string_def)

lemma example_run:
  "GenerateCodePrimary example_generator example_program example_input example_output timePoint
     initial_state =
   Inr (initial_state\<lparr>sink := ''// GLSL Vertex Shader '' @ [CHR 0x22] @ ''main'' @ [CHR 0x22, CHR 0x0A]
          @ ''// Generated by XShaderCompiler'' @ [CHR 0x0A]
          @ ''// '' @ timePoint @ [CHR 0x0A, CHR 0x0A]
          @ ''#version 330'' @ [CHR 0x0A, CHR 0x0A]\<rparr>)"
proof -
  have ep: "entryPointRef example_program \<noteq> None"
    by (simp add: example_program_def)
  show ?thesis
    unfolding GenerateCodePrimary_header [OF ep]
    by (simp add: stored_context_def header_target_def example_generator_def example_input_def
          example_output_def example_program_def initial_state_def line_text_def
          CurrentOptions_def FullIndent_def VisitProgram_def WriteVersionAndExtensions_def
          Version_def Blank_def seq.simps WriteLn_line_text skip_def to_string_def
          nat_to_string.simps WriteReferencedIntrinsics_def WriteGlobalInputSemantics_def
          with_entryPoint_def)
qed


text \<open>
  The text of a structure declaration depends on the address of the local flag
  \<open>semicolon\<close>: the closing brace has its semicolon where the low byte of the address is
  1, it has none where the byte is 0, and for any other byte the behaviour is undefined.
\<close>

lemma structure_declaration_depends_on_address:
  "VisitStmnt (example_generator\<lparr>localAddress := \<lambda>st. 140722317466369\<rparr>) None example_struct
     initial_state =
     Inr (initial_state\<lparr>sink := ''#line 3'' @ [CHR 0x0A] @ ''struct S'' @ [CHR 0x0A] @ ''{''
            @ [CHR 0x0A] @ ''};'' @ [CHR 0x0A, CHR 0x0A]\<rparr>)
   \<and> VisitStmnt (example_generator\<lparr>localAddress := \<lambda>st. 140722317466368\<rparr>) None example_struct
     initial_state =
     Inr (initial_state\<lparr>sink := ''#line 3'' @ [CHR 0x0A] @ ''struct S'' @ [CHR 0x0A] @ ''{''
            @ [CHR 0x0A] @ ''}'' @ [CHR 0x0A, CHR 0x0A]\<rparr>)
   \<and> VisitStmnt (example_generator\<lparr>localAddress := \<lambda>st. 140722317466463\<rparr>) None example_struct
     initial_state = Inl UndefinedBehaviour"
  by (simp add: example_struct_def example_generator_def initial_state_def seq.simps Line_def
        WriteLn_def Write_def BeginLn_def EndLn_def CurrentOptions_def FullIndent_def skip_def
        OpenScope_def CloseScope_def Blank_def IncIndent_def DecIndent_def to_string_def
        nat_to_string.simps MustResolveStruct_def args_flag_def args_undefined_def
        undefined_behaviour_def)




lemma first_code_line_comment:
  assumes "CHR 0x0A \<notin> set a" and "is_comment a"
  shows "first_code_line (a @ CHR 0x0A # b) = first_code_line b"
  using assms by (simp add: first_code_line_def lines_of_line)

lemma first_code_line_blank:
  "first_code_line (CHR 0x0A # b) = first_code_line b"
  using lines_of_line [of "[]" b] by (simp add: first_code_line_def is_blank_def)

lemma first_code_line_found:
  assumes "CHR 0x0A \<notin> set a" and "\<not> is_comment a" and "\<not> is_blank a"
  shows "first_code_line (a @ CHR 0x0A # b) = Some a"
  using assms by (simp add: first_code_line_def lines_of_line)

lemma first_non_blank_line_found:
  assumes "CHR 0x0A \<notin> set a" and "\<not> is_blank a"
  shows "first_non_blank_line (a @ CHR 0x0A # b) = Some a"
  using assms by (simp add: first_non_blank_line_def lines_of_line)

lemma seq_ConsE:
  assumes "seq (m # ms) s = Inr s'"
  obtains s1 where "m s = Inr s1" and "seq ms s1 = Inr s'"
  using assms by (auto simp: seq.simps split: sum.splits)

lemma line_text_initial_state [simp]: "line_text initial_state text = text @ [CHR 0x0A]"
  by (simp add: line_text_def initial_state_def CurrentOptions_def FullIndent_def)

lemma initial_state_fields [simp]: "sink initial_state = []" "log initial_state = []"
  by (simp_all add: initial_state_def)

lemma is_comment_header [simp]: "is_comment (''// '' @ text)"
  by (simp add: is_comment_def)

lemma version_line_is_code [simp]:
  "\<not> is_comment (''#version '' @ text)" "\<not> is_blank (''#version '' @ text)"
  by (simp_all add: is_comment_def is_blank_def)

lemma comment_not_blank [simp]: "\<not> is_blank (''// '' @ text)"
  by (simp add: is_blank_def)

lemma header_lines:
  assumes "CHR 0x0A \<notin> set c1" and "CHR 0x0A \<notin> set c3" and "CHR 0x0A \<notin> set v"
    and "\<not> is_comment v" and "\<not> is_blank v"
  shows "first_code_line (''// '' @ c1 @ [CHR 0x0A] @ ''// Generated by XShaderCompiler''
           @ [CHR 0x0A] @ ''// '' @ c3 @ [CHR 0x0A] @ [CHR 0x0A] @ v @ [CHR 0x0A] @ rest) = Some v"
    and "first_non_blank_line (''// '' @ c1 @ [CHR 0x0A] @ ''// Generated by XShaderCompiler''
           @ [CHR 0x0A] @ ''// '' @ c3 @ [CHR 0x0A] @ [CHR 0x0A] @ v @ [CHR 0x0A] @ rest)
         = Some (''// '' @ c1)"
proof -
  have l1: "first_code_line ((''// '' @ c1) @ CHR 0x0A # X) = first_code_line X" for X
    by (rule first_code_line_comment) (simp_all add: assms is_comment_def)
  have l2: "first_code_line (''// Generated by XShaderCompiler'' @ CHR 0x0A # X)
      = first_code_line X" for X
    by (rule first_code_line_comment) (simp_all add: is_comment_def)
  have l3: "first_code_line ((''// '' @ c3) @ CHR 0x0A # X) = first_code_line X" for X
    by (rule first_code_line_comment) (simp_all add: assms is_comment_def)
  have l5: "first_code_line (v @ CHR 0x0A # X) = Some v" for X
    by (rule first_code_line_found) (simp_all add: assms)
  have "first_code_line ((''// '' @ c1) @ CHR 0x0A # ''// Generated by XShaderCompiler''
      @ CHR 0x0A # (''// '' @ c3) @ CHR 0x0A # CHR 0x0A # v @ CHR 0x0A # rest) = Some v"
    by (simp only: l1 l2 l3 l5 first_code_line_blank)
  then show "first_code_line (''// '' @ c1 @ [CHR 0x0A] @ ''// Generated by XShaderCompiler''
           @ [CHR 0x0A] @ ''// '' @ c3 @ [CHR 0x0A] @ [CHR 0x0A] @ v @ [CHR 0x0A] @ rest) = Some v"
    by simp
  have "first_non_blank_line ((''// '' @ c1) @ CHR 0x0A # ''// Generated by XShaderCompiler''
      @ CHR 0x0A # (''// '' @ c3) @ CHR 0x0A # CHR 0x0A # v @ CHR 0x0A # rest) = Some (''// '' @ c1)"
    by (rule first_non_blank_line_found) (simp_all add: assms is_blank_def)
  then show "first_non_blank_line (''// '' @ c1 @ [CHR 0x0A] @ ''// Generated by XShaderCompiler''
           @ [CHR 0x0A] @ ''// '' @ c3 @ [CHR 0x0A] @ [CHR 0x0A] @ v @ [CHR 0x0A] @ rest)
         = Some (''// '' @ c1)"
    by simp
qed



section \<open>Line marks\<close>

lemma lineMarks_basic [simp]:
  "Error (ctx\<lparr>allowLineMarks := b\<rparr>) = Error ctx"
  "Warning (ctx\<lparr>allowLineMarks := b\<rparr>) = Warning ctx"
  "ErrorInvalidNumArgs (ctx\<lparr>allowLineMarks := b\<rparr>) = ErrorInvalidNumArgs ctx"
  "WriteDataType (ctx\<lparr>allowLineMarks := b\<rparr>) = WriteDataType ctx"
  "AssertIntrinsicNumArgs (ctx\<lparr>allowLineMarks := b\<rparr>) = AssertIntrinsicNumArgs ctx"
  "IsScalar (ctx\<lparr>allowLineMarks := b\<rparr>) = IsScalar ctx"
  "GetTypeDenoterForSuffixVarIdent (ctx\<lparr>allowLineMarks := b\<rparr>) = GetTypeDenoterForSuffixVarIdent ctx"
  "MustResolveStruct (ctx\<lparr>allowLineMarks := b\<rparr>) = MustResolveStruct ctx"
  "with_entryPoint (ctx\<lparr>allowLineMarks := b\<rparr>) = with_entryPoint ctx"
  by (auto simp: fun_eq_iff Error_def Warning_def ErrorInvalidNumArgs_def WriteDataType_def
        AssertIntrinsicNumArgs_def IsScalar_def GetTypeDenoterForSuffixVarIdent_def
        MustResolveStruct_def with_entryPoint_def
      split: option.splits type_denoter.splits)

lemma lineMarks_WriteSuffixVarIdentBegin [simp]:
  "WriteSuffixVarIdentBegin (ctx\<lparr>allowLineMarks := b\<rparr>) t v = WriteSuffixVarIdentBegin ctx t v"
  by (induction ctx t v rule: WriteSuffixVarIdentBegin.induct)
     (auto split: option.splits type_denoter.splits)

lemma lineMarks_expr:
  "VisitExpr (ctx\<lparr>allowLineMarks := b\<rparr>) e = VisitExpr ctx e"
  "WriteArrayDims (ctx\<lparr>allowLineMarks := b\<rparr>) es = WriteArrayDims ctx es"
  "VisitArguments (ctx\<lparr>allowLineMarks := b\<rparr>) es = VisitArguments ctx es"
  "WriteVarIdent (ctx\<lparr>allowLineMarks := b\<rparr>) vi r = WriteVarIdent ctx vi r"
  "WriteSuffixVarIdentEnd (ctx\<lparr>allowLineMarks := b\<rparr>) t vi = WriteSuffixVarIdentEnd ctx t vi"
  "WriteTypeDenoter (ctx\<lparr>allowLineMarks := b\<rparr>) td = WriteTypeDenoter ctx td"
  "VisitFunctionCall (ctx\<lparr>allowLineMarks := b\<rparr>) call = VisitFunctionCall ctx call"
  "WriteFunctionCallStandard (ctx\<lparr>allowLineMarks := b\<rparr>) call = WriteFunctionCallStandard ctx call"
  "WriteMulArgument (ctx\<lparr>allowLineMarks := b\<rparr>) e = WriteMulArgument ctx e"
  "WriteFunctionCallIntrinsicMul (ctx\<lparr>allowLineMarks := b\<rparr>) call = WriteFunctionCallIntrinsicMul ctx call"
  "WriteFunctionCallIntrinsicRcp (ctx\<lparr>allowLineMarks := b\<rparr>) call = WriteFunctionCallIntrinsicRcp ctx call"
  "WriteFunctionCallIntrinsicAtomic (ctx\<lparr>allowLineMarks := b\<rparr>) call = WriteFunctionCallIntrinsicAtomic ctx call"
  by (induction ctx e and ctx es and ctx es and ctx vi r and ctx t vi and ctx td and ctx call
        and ctx call and ctx e and ctx call and ctx call and ctx call
      rule: VisitExpr_WriteArrayDims_VisitArguments_WriteVarIdent_WriteSuffixVarIdentEnd_WriteTypeDenoter_VisitFunctionCall_WriteFunctionCallStandard_WriteMulArgument_WriteFunctionCallIntrinsicMul_WriteFunctionCallIntrinsicRcp_WriteFunctionCallIntrinsicAtomic.induct)
     (((auto simp del: expr_simps simp: VisitExpr.simps Let_def
          split: option.splits list.splits; fail)[1]
      | (auto simp del: expr_simps simp: WriteArrayDims.simps Let_def
          split: option.splits list.splits; fail)[1]
      | (auto simp del: expr_simps simp: VisitArguments.simps Let_def
          split: option.splits list.splits; fail)[1]
      | (auto simp del: expr_simps simp: WriteVarIdent.simps Let_def
          split: option.splits list.splits; fail)[1]
      | (auto simp del: expr_simps simp: WriteSuffixVarIdentEnd.simps Let_def
          split: option.splits list.splits; fail)[1]
      | (auto simp del: expr_simps simp: WriteTypeDenoter.simps Let_def
          split: option.splits list.splits; fail)[1]
      | (auto simp del: expr_simps simp: VisitFunctionCall.simps Let_def
          split: option.splits list.splits; fail)[1]
      | (auto simp del: expr_simps simp: WriteFunctionCallStandard.simps Let_def
          split: option.splits list.splits; fail)[1]
      | (auto simp del: expr_simps simp: WriteMulArgument.simps Let_def
          split: option.splits list.splits; fail)[1]
      | (auto simp del: expr_simps simp: WriteFunctionCallIntrinsicMul.simps Let_def
          split: option.splits list.splits; fail)[1]
      | (auto simp del: expr_simps simp: WriteFunctionCallIntrinsicRcp.simps Let_def
          split: option.splits list.splits; fail)[1]
      | (auto simp del: expr_simps simp: WriteFunctionCallIntrinsicAtomic.simps Let_def
          split: option.splits list.splits; fail)[1])+)

lemma lineMarks_Error [simp]: "Error (ctx\<lparr>allowLineMarks := b\<rparr>) = Error ctx"
  by (simp add: Error_def fun_eq_iff)

lemma lineMarks_Warning [simp]: "Warning (ctx\<lparr>allowLineMarks := b\<rparr>) = Warning ctx"
  by (simp add: Warning_def fun_eq_iff)

lemma lineMarks_MustResolveStruct [simp]:
  "MustResolveStruct (ctx\<lparr>allowLineMarks := b\<rparr>) = MustResolveStruct ctx"
  by (simp add: MustResolveStruct_def fun_eq_iff)

lemma lineMarks_VisitVarDecl [simp]:
  "VisitVarDecl (ctx\<lparr>allowLineMarks := b\<rparr>) v = VisitVarDecl ctx v"
  by (simp add: VisitVarDecl_def lineMarks_expr cong: option.case_cong)

lemma lineMarks_VisitVarDecls [simp]:
  "VisitVarDecls (ctx\<lparr>allowLineMarks := b\<rparr>) vs = VisitVarDecls ctx vs"
  by (induction ctx vs rule: VisitVarDecls.induct) auto

lemma lineMarks_WriteStorageClasses [simp]:
  "WriteStorageClasses (ctx\<lparr>allowLineMarks := b\<rparr>) cs = WriteStorageClasses ctx cs"
  by (induction ctx cs rule: WriteStorageClasses.induct) (auto split: option.splits)

lemma lineMarks_decl:
  "VisitVarType (ctx\<lparr>allowLineMarks := b\<rparr>) vt = VisitVarType ctx vt"
  "VisitStructDecl (ctx\<lparr>allowLineMarks := b\<rparr>) sd args = VisitStructDecl ctx sd args"
  "WriteNestedStructDecls (ctx\<lparr>allowLineMarks := b\<rparr>) sds = WriteNestedStructDecls ctx sds"
  "WriteStructDecl (ctx\<lparr>allowLineMarks := b\<rparr>) sd w a = WriteStructDecl ctx sd w a"
  "WriteStructDeclMembers (ctx\<lparr>allowLineMarks := b\<rparr>) sd = WriteStructDeclMembers ctx sd"
  "VisitVarDeclStmnt (ctx\<lparr>allowLineMarks := b\<rparr>) st = VisitVarDeclStmnt ctx st"
  "VisitVarDeclStmnts (ctx\<lparr>allowLineMarks := b\<rparr>) sts = VisitVarDeclStmnts ctx sts"
proof (induction ctx vt and ctx sd args and ctx sds and ctx sd w a and ctx sd and ctx st and ctx sts
      rule: VisitVarType_VisitStructDecl_WriteNestedStructDecls_WriteStructDecl_WriteStructDeclMembers_VisitVarDeclStmnt_VisitVarDeclStmnts.induct)
  case (7 ctx inp outp classes modifiers inputMod vt decls)
  have "VisitVarType (ctx\<lparr>allowLineMarks := b\<rparr>) vt = VisitVarType ctx vt"
    if "filter (\<lambda>v. \<not> (disableCodeGen v \<or>
          isInsideInterfaceBlock s \<and> IsSystemValue (semantic v))) decls \<noteq> []"
    for s :: gen_state
    using 7(1) [of _ s] 7(2) [of _ s] that by blast
  note vt = this
  show ?case
    apply (unfold VisitVarDeclStmnt.simps)
    apply (rule ext)
    subgoal for s
      using vt [of s]
      apply (cases "filter (\<lambda>v. \<not> (disableCodeGen v \<or>
          isInsideInterfaceBlock s \<and> IsSystemValue (semantic v))) decls = []")
       apply (simp_all add: Let_def del: decl_simps)
      done
    done
qed ((auto simp del: decl_simps simp: VisitVarType.simps lineMarks_expr
          split: option.splits; fail)[1]
      | (auto simp del: decl_simps simp: VisitStructDecl.simps; fail)[1]
      | (auto simp del: decl_simps simp: WriteNestedStructDecls.simps; fail)[1]
      | (auto simp del: decl_simps simp: WriteStructDecl.simps; fail)[1]
      | (auto simp del: decl_simps simp: WriteStructDeclMembers.simps
          split: option.splits; fail)[1]
      | (auto simp del: decl_simps simp: VisitVarDeclStmnts.simps; fail)[1])+

lemma lineMarks_WriteOutputSemanticsAssignment [simp]:
  "WriteOutputSemanticsAssignment (ctx\<lparr>allowLineMarks := b\<rparr>) e = WriteOutputSemanticsAssignment ctx e"
  by (simp add: WriteOutputSemanticsAssignment_def WriteOutputSemanticsAssignmentVarDecl_def [abs_def]
        lineMarks_expr cong: option.case_cong if_cong)

lemma lineMarks_VisitTextureDeclStmnt [simp]:
  "VisitTextureDeclStmnt (ctx\<lparr>allowLineMarks := b\<rparr>) t = VisitTextureDeclStmnt ctx t"
  by (simp add: VisitTextureDeclStmnt_def WriteTextureDecl_def [abs_def] Let_def
        cong: option.case_cong if_cong)

lemma lineMarks_stmnt:
  "\<not> has_line_mark ctx st \<Longrightarrow> VisitStmnt (ctx\<lparr>allowLineMarks := b\<rparr>) args st = VisitStmnt ctx args st"
  "\<not> has_line_mark_list ctx sts \<Longrightarrow> VisitStmnts (ctx\<lparr>allowLineMarks := b\<rparr>) sts = VisitStmnts ctx sts"
  "\<not> has_line_mark_option ctx sto \<Longrightarrow>
     WriteScopedStmnt (ctx\<lparr>allowLineMarks := b\<rparr>) sto = WriteScopedStmnt ctx sto"
  "\<not> has_line_mark_case ctx c \<Longrightarrow> VisitSwitchCase (ctx\<lparr>allowLineMarks := b\<rparr>) c = VisitSwitchCase ctx c"
  "\<not> has_line_mark_cases ctx cs \<Longrightarrow>
     VisitSwitchCases (ctx\<lparr>allowLineMarks := b\<rparr>) cs = VisitSwitchCases ctx cs"
  by (induction ctx args st and ctx sts and ctx sto and ctx c and ctx cs
      rule: VisitStmnt_VisitStmnts_WriteScopedStmnt_VisitSwitchCase_VisitSwitchCases.induct)
     (((auto simp del: stmnt_simps simp: VisitStmnt.simps lineMarks_expr lineMarks_decl
          VisitBufferDeclStmnt_def split: option.splits; fail)[1]
      | (auto simp del: stmnt_simps simp: VisitStmnts.simps; fail)[1]
      | (auto simp del: stmnt_simps simp: WriteScopedStmnt.simps; fail)[1]
      | (auto simp del: stmnt_simps simp: VisitSwitchCase.simps lineMarks_expr
          split: option.splits; fail)[1]
      | (auto simp del: stmnt_simps simp: VisitSwitchCases.simps; fail)[1])+)

lemma seq_Line_first:
  assumes "seq (Line ctx row # ms) s = Inr s'" and "allowLineMarks ctx"
    and "\<And>m. m \<in> set ms \<Longrightarrow> frame m"
  shows "\<exists>rest. sink s' = sink s @ line_text s (''#line '' @ to_string row) @ rest"
proof -
  from assms(1,3) obtain s1 t where "Line ctx row s = Inr s1" and "sink s' = sink s1 @ t"
    by (rule seq_Cons_result)
  with assms(2) show ?thesis
    by (auto simp: Line_def WriteLn_line_text)
qed


lemma line_mark_first:
  assumes row: "line_mark_row ctx st = Some row" and marks: "allowLineMarks ctx"
    and run: "VisitStmnt ctx args st s = Inr s'"
  shows "\<exists>rest. sink s' = sink s @ line_text s (''#line '' @ to_string row) @ rest"
proof (cases st)
  case (FunctionDecl ast codeBlock)
  with row have reach: "fd_isReachable ast" and r: "row = fd_row ast"
    by (auto split: if_splits)
  from run reach obtain s1 where pre: "(if hasNonReturnControlPath ast then Error ctx
        (''not all control paths in function '' @ [CHR 0x27] @ fd_ident ast
           @ [CHR 0x27] @ '' return a value'') else skip) s = Inr s1"
    and "\<exists>rest. sink s' = sink s1 @ line_text s1 (''#line '' @ to_string row) @ rest"
    unfolding FunctionDecl r
    apply simp
    apply (erule seq_ConsE)
    apply (drule seq_Line_first [OF _ marks])
     apply (auto simp: frame_stmnt frame_decl split: option.splits)
    done
  moreover from pre have "sink s1 = sink s" and "line_text s1 = line_text s"
    by (auto simp: Error_def skip_def fun_eq_iff split: if_splits)
  ultimately show ?thesis by simp
next
  case (BufferDeclStmnt ast)
  with row run show ?thesis
    by (auto simp: VisitBufferDeclStmnt_def frame_decl split: if_splits option.splits
          dest!: seq_Line_first [OF _ marks])
next
  case (StructDeclStmnt r sdecl)
  with row run show ?thesis
    by (auto simp: frame_decl split: if_splits dest!: seq_Line_first [OF _ marks])
next
  case (AliasDeclStmnt r sdecl)
  with row run show ?thesis
    by (auto simp: frame_decl split: if_splits option.splits
          dest!: seq_Line_first [OF _ marks])
qed (use row in simp_all)

lemma lineMarks_semantics [simp]:
  "WriteLocalInputSemantics (ctx\<lparr>allowLineMarks := b\<rparr>) = WriteLocalInputSemantics ctx"
  "WriteLocalOutputSemantics (ctx\<lparr>allowLineMarks := b\<rparr>) = WriteLocalOutputSemantics ctx"
  by (simp_all add: WriteLocalInputSemantics_def WriteLocalInputSemanticsVarDecl_def [abs_def]
        WriteLocalOutputSemantics_def WriteLocalOutputSemanticsVarDecl_def [abs_def]
        lineMarks_decl cong: option.case_cong if_cong)

lemma lineMarks_WriteParameter [simp]:
  "WriteParameter (ctx\<lparr>allowLineMarks := b\<rparr>) p = WriteParameter ctx p"
  by (simp add: WriteParameter_def lineMarks_decl cong: list.case_cong)

lemma lineMarks_WriteParameters [simp]:
  "WriteParameters (ctx\<lparr>allowLineMarks := b\<rparr>) ps = WriteParameters ctx ps"
  by (induction ctx ps rule: WriteParameters.induct) auto

lemma Line_inserted:
  assumes "\<And>m. m \<in> set ms \<Longrightarrow> frame m" and "seq ms s = Inr sr"
  shows "seq (WriteLn line # ms) s =
    Inr (sr\<lparr>sink := sink s @ line_text s line @ drop (length (sink s)) (sink sr)\<rparr>)"
proof -
  from assms(1) have fr: "frame (seq ms)"
    by (rule frame_seq)
  from assms(2) obtain u where u: "seq ms (s\<lparr>sink := []\<rparr>) = Inr u"
    and sr: "sr = u\<lparr>sink := sink s @ sink u\<rparr>"
    by (subst (asm) frame_from_empty [OF fr]) (auto split: sum.splits)
  have "seq ms (s\<lparr>sink := sink s @ line_text s line\<rparr>) =
      Inr (u\<lparr>sink := (sink s @ line_text s line) @ sink u\<rparr>)"
    by (subst frame_from_empty [OF fr]) (simp add: u)
  then show ?thesis
    by (simp add: seq_WriteLn sr)
qed

lemma seq_skip: "seq (skip # ms) s = seq ms s"
  by (simp add: seq.simps skip_def)

lemma Line_on_off:
  assumes "\<And>m. m \<in> set ms \<Longrightarrow> frame m"
    and "seq (Line (ctx\<lparr>allowLineMarks := False\<rparr>) row # ms) s = Inr s0"
  shows "seq (Line (ctx\<lparr>allowLineMarks := True\<rparr>) row # ms) s =
    Inr (s0\<lparr>sink := sink s @ line_text s (''#line '' @ to_string row)
                 @ drop (length (sink s)) (sink s0)\<rparr>)"
  using Line_inserted [OF assms(1), where s = s and sr = s0 and line = "''#line '' @ to_string row"]
    assms(2)
  by (simp add: Line_def seq_skip)

lemma Line_on_off_after:
  assumes "\<And>m. m \<in> set ms \<Longrightarrow> frame m"
    and "\<And>s1. pre s = Inr s1 \<Longrightarrow> sink s1 = sink s \<and> line_text s1 = line_text s"
    and "seq (pre # Line (ctx\<lparr>allowLineMarks := False\<rparr>) row # ms) s = Inr s0"
  shows "seq (pre # Line (ctx\<lparr>allowLineMarks := True\<rparr>) row # ms) s =
    Inr (s0\<lparr>sink := sink s @ line_text s (''#line '' @ to_string row)
                 @ drop (length (sink s)) (sink s0)\<rparr>)"
proof -
  from assms(3) obtain s1 where pre: "pre s = Inr s1"
    and "seq (Line (ctx\<lparr>allowLineMarks := False\<rparr>) row # ms) s1 = Inr s0"
    by (rule seq_ConsE)
  from Line_on_off [OF assms(1) this(2)] assms(2) [OF pre] show ?thesis
    by (simp add: seq.simps(2) [of pre] pre)
qed

lemma line_marks_on_off:
  assumes row: "line_mark_row ctx st = Some row" and inner: "\<not> has_inner_line_mark ctx st"
    and off: "VisitStmnt (ctx\<lparr>allowLineMarks := False\<rparr>) args st s = Inr s0"
  shows "VisitStmnt (ctx\<lparr>allowLineMarks := True\<rparr>) args st s =
     Inr (s0\<lparr>sink := sink s @ line_text s (''#line '' @ to_string row)
                  @ drop (length (sink s)) (sink s0)\<rparr>)"
proof (cases st)
  case (FunctionDecl ast codeBlock)
  with row have reach: "fd_isReachable ast" and r: "row = fd_row ast"
    by (auto split: if_splits)
  show ?thesis
  proof (cases codeBlock)
    case None
    from off reach show ?thesis
      unfolding FunctionDecl r None
      apply (simp add: lineMarks_decl cong: if_cong)
      apply (drule Line_on_off_after [rotated 2])
        apply (auto simp: frame_decl Error_def skip_def split: if_splits)
      done
  next
    case (Some stmnts)
    with inner FunctionDecl
    have "VisitStmnts (ctx\<lparr>allowLineMarks := b\<rparr>) stmnts = VisitStmnts ctx stmnts" for b
      by (simp add: lineMarks_stmnt)
    with off reach show ?thesis
      unfolding FunctionDecl r Some
      apply (simp add: lineMarks_decl cong: if_cong)
      apply (drule Line_on_off_after [rotated 2])
        apply (auto simp: frame_decl frame_stmnt Error_def skip_def split: if_splits)
      done
  qed
next
  case (BufferDeclStmnt ast)
  with row off show ?thesis
    by (auto simp: VisitBufferDeclStmnt_def frame_decl lineMarks_decl
          split: if_splits option.splits dest!: Line_on_off [rotated])
next
  case (StructDeclStmnt r sdecl)
  with row off show ?thesis
    by (auto simp: frame_decl lineMarks_decl split: if_splits dest!: Line_on_off [rotated])
next
  case (AliasDeclStmnt r sdecl)
  with row off show ?thesis
    by (auto simp: frame_decl lineMarks_decl split: if_splits option.splits
          dest!: Line_on_off [rotated])
qed (use row in simp_all)



end
